theory Spec2Isabelle
  imports Complex_Main
begin

section \<open>Errors and basic array operations\<close>

text \<open>
  The Python exceptions that the modelled code can raise. Every assertion, every
  out-of-range index and every shape mismatch of the source is a branch returning
  \<open>Inl\<close> of one of these.
\<close>

datatype error =
    AssertionError string
  | ValueError string
  | IndexError string
  | TypeError string

type_synonym vec = "real list"
type_synonym vec3 = "real \<times> real \<times> real"

definition x3 :: "vec3 \<Rightarrow> real" where "x3 p = fst p"
definition y3 :: "vec3 \<Rightarrow> real" where "y3 p = fst (snd p)"
definition z3 :: "vec3 \<Rightarrow> real" where "z3 p = snd (snd p)"

text \<open>\<open>np.min\<close> of an array: a zero-size array has no minimum and raises ValueError.\<close>

definition np_min :: "real list \<Rightarrow> error + real" where
  "np_min xs = (if xs = [] then Inl (ValueError ''zero-size array to reduction operation minimum which has no identity'')
                else Inr (min_list xs))"

text \<open>Running a list of fallible computations in order, stopping at the first error.\<close>

fun sequenceE :: "(error + 'a) list \<Rightarrow> error + 'a list" where
  "sequenceE [] = Inr []"
| "sequenceE (x # xs) =
     (case x of Inl e \<Rightarrow> Inl e
      | Inr v \<Rightarrow> (case sequenceE xs of Inl e \<Rightarrow> Inl e | Inr vs \<Rightarrow> Inr (v # vs)))"

section \<open>The prism kernel (\<open>BaseProblemVRM._getGeometryMatrix\<close>)\<close>

datatype component = Comp_x | Comp_y | Comp_z

definition eps :: real where "eps = 1 / 10 ^ 10"

definition kernel_C :: real where "kernel_C = - (1 / (4 * pi))"

definition rad :: "real \<Rightarrow> real \<Rightarrow> real \<Rightarrow> real" where
  "rad u v w = sqrt (u\<^sup>2 + v\<^sup>2 + w\<^sup>2)"

text \<open>
  The nine closed-form series of the source, each over the six corner differences
  \<open>u1 u2 v1 v2 w1 w2\<close> of one prism, term by term in the order of the source.
\<close>

definition Gxx :: "real \<Rightarrow> real \<Rightarrow> real \<Rightarrow> real \<Rightarrow> real \<Rightarrow> real \<Rightarrow> real" where
  "Gxx u1 u2 v1 v2 w1 w2 =
     arctan ((v1 * w1) / (u1 * rad u1 v1 w1 + eps)) -
     arctan ((v1 * w1) / (u2 * rad u2 v1 w1 + eps)) +
     arctan ((v2 * w1) / (u2 * rad u2 v2 w1 + eps)) -
     arctan ((v2 * w1) / (u1 * rad u1 v2 w1 + eps)) +
     arctan ((v2 * w2) / (u1 * rad u1 v2 w2 + eps)) -
     arctan ((v1 * w2) / (u1 * rad u1 v1 w2 + eps)) +
     arctan ((v1 * w2) / (u2 * rad u2 v1 w2 + eps)) -
     arctan ((v2 * w2) / (u2 * rad u2 v2 w2 + eps))"

definition Gyx :: "real \<Rightarrow> real \<Rightarrow> real \<Rightarrow> real \<Rightarrow> real \<Rightarrow> real \<Rightarrow> real" where
  "Gyx u1 u2 v1 v2 w1 w2 =
     ln (rad u1 v1 w1 - w1) -
     ln (rad u2 v1 w1 - w1) +
     ln (rad u2 v2 w1 - w1) -
     ln (rad u1 v2 w1 - w1) +
     ln (rad u1 v2 w2 - w2) -
     ln (rad u1 v1 w2 - w2) +
     ln (rad u2 v1 w2 - w2) -
     ln (rad u2 v2 w2 - w2)"

definition Gzx :: "real \<Rightarrow> real \<Rightarrow> real \<Rightarrow> real \<Rightarrow> real \<Rightarrow> real \<Rightarrow> real" where
  "Gzx u1 u2 v1 v2 w1 w2 =
     ln (rad u1 v1 w1 - v1) -
     ln (rad u2 v1 w1 - v1) +
     ln (rad u2 v2 w1 - v2) -
     ln (rad u1 v2 w1 - v2) +
     ln (rad u1 v2 w2 - v2) -
     ln (rad u1 v1 w2 - v1) +
     ln (rad u2 v1 w2 - v1) -
     ln (rad u2 v2 w2 - v2)"

definition Gxy :: "real \<Rightarrow> real \<Rightarrow> real \<Rightarrow> real \<Rightarrow> real \<Rightarrow> real \<Rightarrow> real" where
  "Gxy u1 u2 v1 v2 w1 w2 =
     ln (rad u1 v1 w1 - w1) -
     ln (rad u2 v1 w1 - w1) +
     ln (rad u2 v2 w1 - w1) -
     ln (rad u1 v2 w1 - w1) +
     ln (rad u1 v2 w2 - w2) -
     ln (rad u1 v1 w2 - w2) +
     ln (rad u2 v1 w2 - w2) -
     ln (rad u2 v2 w2 - w2)"

definition Gyy :: "real \<Rightarrow> real \<Rightarrow> real \<Rightarrow> real \<Rightarrow> real \<Rightarrow> real \<Rightarrow> real" where
  "Gyy u1 u2 v1 v2 w1 w2 =
     arctan ((u1 * w1) / (v1 * rad u1 v1 w1 + eps)) -
     arctan ((u2 * w1) / (v1 * rad u2 v1 w1 + eps)) +
     arctan ((u2 * w1) / (v2 * rad u2 v2 w1 + eps)) -
     arctan ((u1 * w1) / (v2 * rad u1 v2 w1 + eps)) +
     arctan ((u1 * w2) / (v2 * rad u1 v2 w2 + eps)) -
     arctan ((u1 * w2) / (v1 * rad u1 v1 w2 + eps)) +
     arctan ((u2 * w2) / (v1 * rad u2 v1 w2 + eps)) -
     arctan ((u2 * w2) / (v2 * rad u2 v2 w2 + eps))"

definition Gzy :: "real \<Rightarrow> real \<Rightarrow> real \<Rightarrow> real \<Rightarrow> real \<Rightarrow> real \<Rightarrow> real" where
  "Gzy u1 u2 v1 v2 w1 w2 =
     ln (rad u1 v1 w1 - u1) -
     ln (rad u2 v1 w1 - u2) +
     ln (rad u2 v2 w1 - u2) -
     ln (rad u1 v2 w1 - u1) +
     ln (rad u1 v2 w2 - u1) -
     ln (rad u1 v1 w2 - u1) +
     ln (rad u2 v1 w2 - u2) -
     ln (rad u2 v2 w2 - u2)"

definition Gxz :: "real \<Rightarrow> real \<Rightarrow> real \<Rightarrow> real \<Rightarrow> real \<Rightarrow> real \<Rightarrow> real" where
  "Gxz u1 u2 v1 v2 w1 w2 =
     ln (rad u1 v1 w1 - v1) -
     ln (rad u2 v1 w1 - v1) +
     ln (rad u2 v2 w1 - v2) -
     ln (rad u1 v2 w1 - v2) +
     ln (rad u1 v2 w2 - v2) -
     ln (rad u1 v1 w2 - v1) +
     ln (rad u2 v1 w2 - v1) -
     ln (rad u2 v2 w2 - v2)"

definition Gyz :: "real \<Rightarrow> real \<Rightarrow> real \<Rightarrow> real \<Rightarrow> real \<Rightarrow> real \<Rightarrow> real" where
  "Gyz u1 u2 v1 v2 w1 w2 =
     ln (rad u1 v1 w1 - u1) -
     ln (rad u2 v1 w1 - u2) +
     ln (rad u2 v2 w1 - u2) -
     ln (rad u1 v2 w1 - u1) +
     ln (rad u1 v2 w2 - u1) -
     ln (rad u1 v1 w2 - u1) +
     ln (rad u2 v1 w2 - u2) -
     ln (rad u2 v2 w2 - u2)"

text \<open>
  \<open>Gzz\<close> is assigned twice in the source: first the eight arctangent terms in
  \<open>u\<close>-denominators, then \<open>Gzz = Gzz - ...\<close> with the eight terms in
  \<open>v\<close>-denominators.
\<close>

definition Gzz_first :: "real \<Rightarrow> real \<Rightarrow> real \<Rightarrow> real \<Rightarrow> real \<Rightarrow> real \<Rightarrow> real" where
  "Gzz_first u1 u2 v1 v2 w1 w2 =
     - arctan ((v1 * w1) / (u1 * rad u1 v1 w1 + eps)) +
     arctan ((v1 * w1) / (u2 * rad u2 v1 w1 + eps)) -
     arctan ((v2 * w1) / (u2 * rad u2 v2 w1 + eps)) +
     arctan ((v2 * w1) / (u1 * rad u1 v2 w1 + eps)) -
     arctan ((v2 * w2) / (u1 * rad u1 v2 w2 + eps)) +
     arctan ((v1 * w2) / (u1 * rad u1 v1 w2 + eps)) -
     arctan ((v1 * w2) / (u2 * rad u2 v1 w2 + eps)) +
     arctan ((v2 * w2) / (u2 * rad u2 v2 w2 + eps))"

definition Gzz :: "real \<Rightarrow> real \<Rightarrow> real \<Rightarrow> real \<Rightarrow> real \<Rightarrow> real \<Rightarrow> real" where
  "Gzz u1 u2 v1 v2 w1 w2 =
     Gzz_first u1 u2 v1 v2 w1 w2 -
     arctan ((u1 * w1) / (v1 * rad u1 v1 w1 + eps)) +
     arctan ((u2 * w1) / (v1 * rad u2 v1 w1 + eps)) -
     arctan ((u2 * w1) / (v2 * rad u2 v2 w1 + eps)) +
     arctan ((u1 * w1) / (v2 * rad u1 v2 w1 + eps)) -
     arctan ((u1 * w2) / (v2 * rad u1 v2 w2 + eps)) +
     arctan ((u1 * w2) / (v1 * rad u1 v1 w2 + eps)) -
     arctan ((u2 * w2) / (v1 * rad u2 v1 w2 + eps)) +
     arctan ((u2 * w2) / (v2 * rad u2 v2 w2 + eps))"

text \<open>
  The masked assignment \<open>d[np.abs(d) < 1e-10] = r\<close>: every entry of magnitude below
  \<open>1e-10\<close> is overwritten with \<open>r\<close>, every other entry is kept.
\<close>

definition nudge :: "real list \<Rightarrow> real \<Rightarrow> real list" where
  "nudge d r = map (\<lambda>x. if \<bar>x\<bar> < 1 / 10 ^ 10 then r else x) d"


section \<open>Dense matrices with an explicit shape\<close>

text \<open>
  A numpy or scipy matrix is its list of rows together with its number of columns, so
  that a matrix without rows still has a shape. Every product checks the shapes and
  raises ValueError on a mismatch, as numpy does.
\<close>

record matrix =
  ncols :: nat
  rows :: "real list list"

definition nrows :: "matrix \<Rightarrow> nat" where
  "nrows M = length (rows M)"

definition dot :: "real list \<Rightarrow> real list \<Rightarrow> real" where
  "dot r c = sum_list (map2 (*) r c)"

definition col :: "matrix \<Rightarrow> nat \<Rightarrow> real list" where
  "col M j = map (\<lambda>r. r ! j) (rows M)"

definition transpose_m :: "matrix \<Rightarrow> matrix" where
  "transpose_m M = \<lparr>ncols = nrows M, rows = map (col M) [0..<ncols M]\<rparr>"

definition matvec :: "matrix \<Rightarrow> vec \<Rightarrow> error + vec" where
  "matvec M v =
     (if ncols M = length v then Inr (map (\<lambda>r. dot r v) (rows M))
      else Inl (ValueError ''shapes not aligned''))"

definition vecmat :: "vec \<Rightarrow> matrix \<Rightarrow> error + vec" where
  "vecmat v M =
     (if length v = nrows M then Inr (map (\<lambda>j. dot v (col M j)) [0..<ncols M])
      else Inl (ValueError ''shapes not aligned''))"

definition matmul :: "matrix \<Rightarrow> matrix \<Rightarrow> error + matrix" where
  "matmul A B =
     (if ncols A = nrows B
      then Inr \<lparr>ncols = ncols B,
                rows = map (\<lambda>r. map (\<lambda>j. dot r (col B j)) [0..<ncols B]) (rows A)\<rparr>
      else Inl (ValueError ''shapes not aligned''))"

text \<open>\<open>sp.diags(d)\<close>: the square matrix with \<open>d\<close> on its main diagonal.\<close>

definition diags :: "real list \<Rightarrow> matrix" where
  "diags d = \<lparr>ncols = length d,
              rows = map (\<lambda>i. map (\<lambda>j. if i = j then d ! i else 0) [0..<length d]) [0..<length d]\<rparr>"

text \<open>
  \<open>np.vstack\<close> and \<open>sp.vstack\<close>: the blocks one above the other. An empty list of
  blocks and blocks of different widths raise ValueError.
\<close>

definition vstack :: "matrix list \<Rightarrow> error + matrix" where
  "vstack Ms =
     (case Ms of
        [] \<Rightarrow> Inl (ValueError ''need at least one array to concatenate'')
      | M # _ \<Rightarrow>
          if \<forall>B \<in> set Ms. ncols B = ncols M
          then Inr \<lparr>ncols = ncols M, rows = concat (map rows Ms)\<rparr>
          else Inl (ValueError ''all the input array dimensions except for the concatenation axis must match''))"

text \<open>
  The Kronecker product \<open>kron A B\<close>: row \<open>i * nrows B + k\<close>, column
  \<open>j * ncols B + l\<close> holds \<open>A[i][j] * B[k][l]\<close>.
\<close>

definition kron :: "matrix \<Rightarrow> matrix \<Rightarrow> matrix" where
  "kron A B = \<lparr>ncols = ncols A * ncols B,
               rows = concat (map (\<lambda>ra. map (\<lambda>rb. concat (map (\<lambda>a. map (\<lambda>b. a * b) rb) ra)) (rows B)) (rows A))\<rparr>"

text \<open>\<open>np.ones((k, 1))\<close>: a column of ones.\<close>

definition ones_col :: "nat \<Rightarrow> matrix" where
  "ones_col k = \<lparr>ncols = 1, rows = replicate k [1]\<rparr>"

text \<open>
  Indexing the first axis with a boolean mask, \<open>a[msk, :]\<close>: the entries whose mask is
  True, in order. A msk of another length raises IndexError.
\<close>

definition select :: "bool list \<Rightarrow> 'a list \<Rightarrow> error + 'a list" where
  "select msk xs =
     (if length msk = length xs then Inr (map snd (filter fst (zip msk xs)))
      else Inl (IndexError ''boolean index did not match indexed array''))"

text \<open>
  The masked column assignment \<open>A[:, msk] = B\<close>: in every row the entries under a
  True of the mask are overwritten, left to right, with that row of \<open>B\<close>.
\<close>

fun scatter :: "real list \<Rightarrow> bool list \<Rightarrow> real list \<Rightarrow> real list" where
  "scatter [] ms vs = []"
| "scatter (a # as) [] vs = a # as"
| "scatter (a # as) (False # ms) vs = a # scatter as ms vs"
| "scatter (a # as) (True # ms) [] = a # scatter as ms []"
| "scatter (a # as) (True # ms) (v # vs) = v # scatter as ms vs"

definition assign_cols :: "matrix \<Rightarrow> bool list \<Rightarrow> matrix \<Rightarrow> error + matrix" where
  "assign_cols A msk B =
     (if length msk \<noteq> ncols A
      then Inl (IndexError ''boolean index did not match indexed array'')
      else if nrows B \<noteq> nrows A \<or> ncols B \<noteq> length (filter id msk)
      then Inl (ValueError ''shape mismatch: value array could not be broadcast to indexing result'')
      else Inr (A\<lparr>rows := map2 (\<lambda>ra rb. scatter ra msk rb) (rows A) (rows B)\<rparr>))"

section \<open>Survey objects (external collaborators)\<close>

text \<open>
  The receiver, waveform, source and survey classes are not part of the modelled
  file; the fields below are the attributes and methods that \<open>ProblemVRM.py\<close>
  reads from them.
\<close>

record receiver =
  fieldComp :: component
  locs :: "vec3 list"
  rx_times :: "real list"
  fieldType :: string

record waveform =
  getCharDecay :: "string \<Rightarrow> real list \<Rightarrow> real list"
  getLogUniformDecay :: "string \<Rightarrow> real list \<Rightarrow> vec \<Rightarrow> vec \<Rightarrow> vec \<Rightarrow> vec \<Rightarrow> matrix"

record source =
  rxList :: "receiver list"
  waveform :: waveform
  getH0 :: "vec3 list \<Rightarrow> vec3 list"
  getRefineFlags :: "vec3 list \<Rightarrow> int \<Rightarrow> real list \<Rightarrow> int list"

record surveyVRM =
  srcList :: "source list"
  tActive :: "bool list"

definition nSrc :: "surveyVRM \<Rightarrow> nat" where
  "nSrc sv = length (srcList sv)"

text \<open>
  Modelled from the spec: the attribute \<open>nRx\<close> of the source class, which is not
  part of the modelled file. It is the number of receiver locations of the source over
  all its receivers, the number of rows of the block of the source.
\<close>

definition nRx :: "source \<Rightarrow> nat" where
  "nRx srcObj = length (concat (map locs (rxList srcObj)))"

section \<open>Geometry blocks (\<open>_getGeometryMatrix\<close>, \<open>_getH0matrix\<close>)\<close>

text \<open>
  The six corner-difference arrays of one receiver location \<open>loc\<close> against all
  cells: the receiver coordinate minus the lower faces \<open>ax, ay, az\<close> and minus the
  upper faces \<open>bx, by, bz\<close>, each followed by the masked assignment that nudges the
  entries close to zero. The minimum cell width of each axis is taken over the cell
  widths \<open>xyzh\<close> passed in.
\<close>

definition corner_differences ::
    "vec3 list \<Rightarrow> vec3 list \<Rightarrow> vec3 \<Rightarrow>
     error + (real list \<times> real list \<times> real list \<times> real list \<times> real list \<times> real list)" where
  "corner_differences xyzc xyzh loc =
     (let ax = map2 (\<lambda>c h. x3 c - x3 h / 2) xyzc xyzh;
          bx = map2 (\<lambda>c h. x3 c + x3 h / 2) xyzc xyzh;
          ay = map2 (\<lambda>c h. y3 c - y3 h / 2) xyzc xyzh;
          by = map2 (\<lambda>c h. y3 c + y3 h / 2) xyzc xyzh;
          az = map2 (\<lambda>c h. z3 c - z3 h / 2) xyzc xyzh;
          bz = map2 (\<lambda>c h. z3 c + z3 h / 2) xyzc xyzh
      in case np_min (map x3 xyzh) of Inl e \<Rightarrow> Inl e | Inr hx \<Rightarrow>
         (case np_min (map y3 xyzh) of Inl e \<Rightarrow> Inl e | Inr hy \<Rightarrow>
         (case np_min (map z3 xyzh) of Inl e \<Rightarrow> Inl e | Inr hz \<Rightarrow>
            Inr (nudge (map (\<lambda>a. x3 loc - a) ax) (hx / 1000),
                 nudge (map (\<lambda>b. x3 loc - b) bx) (- hx / 1000),
                 nudge (map (\<lambda>a. y3 loc - a) ay) (hy / 1000),
                 nudge (map (\<lambda>b. y3 loc - b) by) (- hy / 1000),
                 nudge (map (\<lambda>a. z3 loc - a) az) (hz / 1000),
                 nudge (map (\<lambda>b. z3 loc - b) bz) (- hz / 1000)))))"

text \<open>
  One row of \<open>G\<close>: the series of the receiver's component evaluated elementwise
  over the cells, \<open>np.c_\<close> putting the three blocks side by side, times \<open>C\<close>.
\<close>

definition getGeometryRow :: "vec3 list \<Rightarrow> vec3 list \<Rightarrow> component \<Rightarrow> vec3 \<Rightarrow> error + real list" where
  "getGeometryRow xyzc xyzh dComp loc =
     (case corner_differences xyzc xyzh loc of
        Inl e \<Rightarrow> Inl e
      | Inr (u1, u2, v1, v2, w1, w2) \<Rightarrow>
          (let over = (\<lambda>G. map (\<lambda>j. G (u1 ! j) (u2 ! j) (v1 ! j) (v2 ! j) (w1 ! j) (w2 ! j))
                                [0..<length xyzc])
           in Inr (map (\<lambda>g. kernel_C * g)
                (case dComp of
                   Comp_x \<Rightarrow> over Gxx @ over Gyx @ over Gzx
                 | Comp_y \<Rightarrow> over Gxy @ over Gyy @ over Gzy
                 | Comp_z \<Rightarrow> over Gxz @ over Gyz @ over Gzz))))"

text \<open>
  The matrix \<open>G\<close>: one row per receiver location, receivers in the order of
  \<open>rxList\<close>. The source allocates \<open>K = srcObj.nRx\<close> rows, the number of receiver
  locations of the source, and fills row \<open>COUNT\<close> for each location in turn.
  Forming \<open>ax\<close> from arrays of different lengths raises before the loop.
\<close>

definition getGeometryMatrix :: "vec3 list \<Rightarrow> vec3 list \<Rightarrow> source \<Rightarrow> error + matrix" where
  "getGeometryMatrix xyzc xyzh srcObj =
     (if length xyzc \<noteq> length xyzh
      then Inl (ValueError ''operands could not be broadcast together'')
      else case sequenceE (concat (map (\<lambda>rxObj. map (getGeometryRow xyzc xyzh (fieldComp rxObj)) (locs rxObj))
                                       (rxList srcObj))) of
             Inl e \<Rightarrow> Inl e
           | Inr G \<Rightarrow> Inr \<lparr>ncols = 3 * length xyzc, rows = G\<rparr>)"

definition getH0matrix :: "vec3 list \<Rightarrow> source \<Rightarrow> error + matrix" where
  "getH0matrix xyz SrcObj =
     (let H0 = getH0 SrcObj xyz;
          Hx0 = diags (map x3 H0);
          Hy0 = diags (map y3 H0);
          Hz0 = diags (map z3 H0)
      in vstack [Hx0, Hy0, Hz0])"

section \<open>Refinement (\<open>_getSubsetAcolumns\<close>, \<open>_getAMatricies\<close>)\<close>

record tensor_mesh =
  mesh_h :: "real list list"
  nC :: nat
  gridCC :: "vec3 list"
  gridH :: "vec3 list"

text \<open>
  \<open>nxyz_sub\<close>: the offsets \<open>np.linspace(1, n, n) - 0.5\<close> on a three-dimensional
  \<open>np.meshgrid\<close>, flattened by \<open>mkvc\<close> in column-major order and put side by side.
  With the default \<open>xy\<close> indexing the grids have entries \<open>nx[i,j,k] = a[j]\<close>,
  \<open>ny[i,j,k] = a[i]\<close>, \<open>nz[i,j,k] = a[k]\<close>, and the flattening runs \<open>i\<close> fastest.
\<close>

definition sub_offsets :: "nat \<Rightarrow> vec3 list" where
  "sub_offsets n =
     (let a = map (\<lambda>i. real (i + 1) - 1 / 2) [0..<n]
      in concat (map (\<lambda>k. concat (map (\<lambda>j. map (\<lambda>i. (a ! j, a ! i, a ! k)) [0..<n]) [0..<n])) [0..<n]))"

text \<open>
  \<open>np.kron(xs, np.ones((k, 1)))\<close> repeats every row of \<open>xs\<close> \<open>k\<close> times in place;
  \<open>np.kron(np.ones((m, 1)), ys)\<close> writes the whole of \<open>ys\<close> \<open>m\<close> times.
\<close>

definition kron_ones :: "'a list \<Rightarrow> nat \<Rightarrow> 'a list" where
  "kron_ones xs k = concat (map (replicate k) xs)"

definition ones_kron :: "nat \<Rightarrow> 'a list \<Rightarrow> 'a list" where
  "ones_kron m ys = concat (replicate m ys)"

definition getSubsetAcolumns ::
    "vec3 list \<Rightarrow> vec3 list \<Rightarrow> source \<Rightarrow> nat \<Rightarrow> int list \<Rightarrow> error + matrix" where
  "getSubsetAcolumns xyzc xyzh srcObj qq refFlag =
     (let n = (2::nat) ^ qq;
          nxyz_sub = sub_offsets n;
          msk = map (\<lambda>f. f = int qq) refFlag
      in case select msk xyzh of Inl e \<Rightarrow> Inl e | Inr hsel \<Rightarrow>
         (case select msk xyzc of Inl e \<Rightarrow> Inl e | Inr csel \<Rightarrow>
           (let corner = map2 (\<lambda>c h. (x3 c - x3 h / 2, y3 c - y3 h / 2, z3 c - z3 h / 2)) csel hsel;
                m = length corner;
                xyzc_rep = kron_ones corner (n ^ 3);
                xyzh_sub = kron_ones (map (\<lambda>h. (x3 h / real n, y3 h / real n, z3 h / real n)) hsel) (n ^ 3);
                nxyz_rep = ones_kron m nxyz_sub;
                xyzc_sub = map2 (\<lambda>c (h, k). (x3 c + x3 h * x3 k, y3 c + y3 h * y3 k, z3 c + z3 h * z3 k))
                                xyzc_rep (zip xyzh_sub nxyz_rep)
            in case getGeometryMatrix xyzc_sub xyzh_sub srcObj of Inl e \<Rightarrow> Inl e | Inr G \<Rightarrow>
               (case getH0matrix xyzc_sub srcObj of Inl e \<Rightarrow> Inl e | Inr H0 \<Rightarrow>
               (case matmul G H0 of Inl e \<Rightarrow> Inl e | Inr GH0 \<Rightarrow>
                  matmul GH0 (kron (diags (replicate m 1)) (ones_col (n ^ 3))))))))"

text \<open>
  The loop \<open>for qq in range(1, refFact+1)\<close>: the refined columns are computed first,
  then written over the columns flagged \<open>qq\<close>.
\<close>

fun refine_loop ::
    "vec3 list \<Rightarrow> vec3 list \<Rightarrow> source \<Rightarrow> int list \<Rightarrow> matrix \<Rightarrow> nat list \<Rightarrow> error + matrix" where
  "refine_loop xyzc xyzh srcObj refFlag A [] = Inr A"
| "refine_loop xyzc xyzh srcObj refFlag A (qq # qs) =
     (case getSubsetAcolumns xyzc xyzh srcObj qq refFlag of
        Inl e \<Rightarrow> Inl e
      | Inr Acols \<Rightarrow>
          (case assign_cols A (map (\<lambda>f. f = int qq) refFlag) Acols of
             Inl e \<Rightarrow> Inl e
           | Inr A' \<Rightarrow> refine_loop xyzc xyzh srcObj refFlag A' qs))"

text \<open>The body of the loop over the sources in \<open>_getAMatricies\<close>: the block of one source.\<close>

definition getAblock :: "vec3 list \<Rightarrow> vec3 list \<Rightarrow> int \<Rightarrow> real list \<Rightarrow> source \<Rightarrow> error + matrix" where
  "getAblock xyzc xyzh refFact refRadius srcObj =
     (case getGeometryMatrix xyzc xyzh srcObj of Inl e \<Rightarrow> Inl e | Inr G \<Rightarrow>
     (case getH0matrix xyzc srcObj of Inl e \<Rightarrow> Inl e | Inr H0 \<Rightarrow>
     (case matmul G H0 of Inl e \<Rightarrow> Inl e | Inr A0 \<Rightarrow>
        if refFact > 0
        then refine_loop xyzc xyzh srcObj (getRefineFlags srcObj xyzc refFact refRadius) A0
               [1..<nat refFact + 1]
        else Inr A0)))"

definition getAMatricies ::
    "tensor_mesh \<Rightarrow> bool list \<Rightarrow> surveyVRM \<Rightarrow> int \<Rightarrow> real list \<Rightarrow> error + matrix list" where
  "getAMatricies meshObj indActive sv refFact refRadius =
     (case select indActive (gridCC meshObj) of Inl e \<Rightarrow> Inl e | Inr xyzc \<Rightarrow>
     (case select indActive (gridH meshObj) of Inl e \<Rightarrow> Inl e | Inr xyzh \<Rightarrow>
        sequenceE (map (getAblock xyzc xyzh refFact refRadius) (srcList sv))))"

section \<open>Problem state\<close>

text \<open>
  The parameter map \<open>xiMap\<close> is an external mapping object: \<open>xiMap * m\<close> applies it
  to a model vector and \<open>xiMap.P\<close> is its projection matrix.
\<close>

record xiMapping =
  xiMap_apply :: "vec \<Rightarrow> vec"
  xiMap_P :: matrix

text \<open>
  The attributes of a constructed problem. \<open>survey\<close> is \<open>None\<close> while the problem
  is not paired; \<open>stdout\<close> collects the lines printed. The configuration held here has
  passed the validation of the constructor: an integer \<open>refFact\<close> and a boolean mask.
\<close>

record baseProblemVRM =
  mesh :: tensor_mesh
  refFact :: int
  refRadius :: "real list"
  indActive :: "bool list"
  AisSet :: bool
  xiMap :: xiMapping
  survey :: "surveyVRM option"
  stdout :: "string list"

record linearVRM = baseProblemVRM +
  A_linear :: "matrix option"
  T_linear :: "matrix option"
  TisSet :: bool

text \<open>
  For the log-uniform law \<open>_A\<close> is the list of the per-source blocks; the class
  attributes \<open>_T\<close> and \<open>_TisSet\<close> of \<open>LogUniformVRM\<close> are never read or written
  by its methods.
\<close>

record logUniformVRM = baseProblemVRM +
  A_loguniform :: "matrix list option"

definition ispaired :: "'a baseProblemVRM_scheme \<Rightarrow> bool" where
  "ispaired s = (survey s \<noteq> None)"

definition print :: "string \<Rightarrow> 'a baseProblemVRM_scheme \<Rightarrow> 'a baseProblemVRM_scheme" where
  "print line s = s\<lparr>stdout := stdout s @ [line]\<rparr>"

text \<open>
  The check of the \<open>indActive\<close> setter is made on the mask already stored, not on the
  new one.
\<close>

definition is_boolean_array :: "bool list \<Rightarrow> bool" where
  "is_boolean_array xs = (count_list xs True + count_list xs False = length xs)"

definition indActive_setter ::
    "bool list \<Rightarrow> 'a baseProblemVRM_scheme \<Rightarrow> error + 'a baseProblemVRM_scheme" where
  "indActive_setter Vec s =
     (if \<not> is_boolean_array (indActive s)
      then Inl (AssertionError ''indActive must be a boolean array'')
      else Inr (s\<lparr>AisSet := False, indActive := Vec\<rparr>))"

definition xiMap_setter :: "xiMapping \<Rightarrow> 'a baseProblemVRM_scheme \<Rightarrow> 'a baseProblemVRM_scheme" where
  "xiMap_setter mappingObj s = s\<lparr>AisSet := False, xiMap := mappingObj\<rparr>"

section \<open>\<open>LinearVRM\<close>\<close>

text \<open>
  The property \<open>A\<close>. Reading it returns \<open>self._A\<close>, which Python allows to be
  \<open>None\<close>; building it prints a line, stacks the per-source blocks and sets the flag.
  State changes made before a raise stay.
\<close>

definition LinearVRM_A :: "linearVRM \<Rightarrow> (error + matrix option) \<times> linearVRM" where
  "LinearVRM_A s =
     (if \<not> AisSet s then
        (case survey s of
           None \<Rightarrow> (Inl (AssertionError ''Problem must be paired with survey to generate A matrix''), s)
         | Some sv \<Rightarrow>
             (let s1 = print ''CREATING A MATRIX'' (s\<lparr>A_linear := None\<rparr>)
              in case getAMatricies (mesh s) (indActive s) sv (refFact s) (refRadius s) of
                   Inl e \<Rightarrow> (Inl e, s1)
                 | Inr As \<Rightarrow>
                     (case vstack As of
                        Inl e \<Rightarrow> (Inl e, s1)
                      | Inr Am \<Rightarrow> (Inr (Some Am), s1\<lparr>A_linear := Some Am, AisSet := True\<rparr>))))
      else (Inr (A_linear s), s))"

text \<open>\<open>np.matrix(eta).T\<close>: a one-dimensional array as a column.\<close>

definition col_matrix :: "real list \<Rightarrow> matrix" where
  "col_matrix eta = \<lparr>ncols = 1, rows = map (\<lambda>x. [x]) eta\<rparr>"

text \<open>
  \<open>sp.block_diag\<close>: the blocks along the diagonal, zeros elsewhere. It is built
  with \<open>bmat\<close>, which rejects an empty list of blocks.
\<close>

fun block_rows :: "nat \<Rightarrow> nat \<Rightarrow> matrix list \<Rightarrow> real list list" where
  "block_rows before tot [] = []"
| "block_rows before tot (B # Bs) =
     map (\<lambda>r. replicate before 0 @ r @ replicate (tot - before - ncols B) 0) (rows B)
     @ block_rows (before + ncols B) tot Bs"

definition block_diag :: "matrix list \<Rightarrow> error + matrix" where
  "block_diag Ms =
     (if Ms = [] then Inl (ValueError ''blocks must be 2-D'')
      else Inr \<lparr>ncols = sum_list (map ncols Ms),
                rows = block_rows 0 (sum_list (map ncols Ms)) Ms\<rparr>)"

definition getTblocks :: "surveyVRM \<Rightarrow> matrix list" where
  "getTblocks sv =
     concat (map (\<lambda>src.
        map (\<lambda>rx. kron (diags (replicate (length (locs rx)) 1))
                        (col_matrix (getCharDecay (waveform src) (fieldType rx) (rx_times rx))))
            (rxList src))
        (srcList sv))"

definition LinearVRM_T :: "linearVRM \<Rightarrow> (error + matrix option) \<times> linearVRM" where
  "LinearVRM_T s =
     (if \<not> TisSet s then
        (case survey s of
           None \<Rightarrow> (Inl (AssertionError ''Problem must be paired with survey to generate T matrix''), s)
         | Some sv \<Rightarrow>
             (let s1 = print ''CREATING T MATRIX'' (s\<lparr>T_linear := None\<rparr>)
              in case block_diag (getTblocks sv) of
                   Inl e \<Rightarrow> (Inl e, s1)
                 | Inr Tm \<Rightarrow> (Inr (Some Tm), s1\<lparr>T_linear := Some Tm, TisSet := True\<rparr>)))
      else (Inr (T_linear s), s))"

text \<open>A cached operator that is \<open>None\<close> cannot be multiplied: TypeError.\<close>

definition the_matrix :: "'a option \<Rightarrow> error + 'a" where
  "the_matrix M = (case M of None \<Rightarrow> Inl (TypeError ''unsupported operand type(s): NoneType'') | Some Mm \<Rightarrow> Inr Mm)"

text \<open>\<open>T.tocsr()[tActive, :]\<close>: the rows of \<open>T\<close> whose entry of the mask is True.\<close>

definition select_rows :: "bool list \<Rightarrow> matrix \<Rightarrow> error + matrix" where
  "select_rows msk M =
     (case select msk (rows M) of Inl e \<Rightarrow> Inl e | Inr rs \<Rightarrow> Inr (M\<lparr>rows := rs\<rparr>))"

text \<open>
  \<open>fields\<close>: the arguments of \<open>sp.coo_matrix.dot(self.T, self.A*m)\<close> are evaluated
  left to right, so \<open>T\<close> is read before \<open>A\<close>.
\<close>

definition LinearVRM_fields :: "linearVRM \<Rightarrow> vec \<Rightarrow> (error + vec) \<times> linearVRM" where
  "LinearVRM_fields s m =
     (if \<not> ispaired s
      then (Inl (AssertionError ''Problem must be paired with survey to predict data''), s)
      else
        (let m' = xiMap_apply (xiMap s) m
         in case LinearVRM_T s of
              (Inl e, s1) \<Rightarrow> (Inl e, s1)
            | (Inr To, s1) \<Rightarrow>
               (case LinearVRM_A s1 of
                  (Inl e, s2) \<Rightarrow> (Inl e, s2)
                | (Inr Ao, s2) \<Rightarrow>
                   (case the_matrix Ao of Inl e \<Rightarrow> (Inl e, s2) | Inr Am \<Rightarrow>
                   (case matvec Am m' of Inl e \<Rightarrow> (Inl e, s2) | Inr Am' \<Rightarrow>
                   (case the_matrix To of Inl e \<Rightarrow> (Inl e, s2) | Inr Tm \<Rightarrow>
                      (matvec Tm Am', s2)))))))"

definition LinearVRM_Jvec :: "linearVRM \<Rightarrow> vec \<Rightarrow> vec \<Rightarrow> (error + vec) \<times> linearVRM" where
  "LinearVRM_Jvec s m v =
     (case survey s of
        None \<Rightarrow> (Inl (AssertionError ''Problem must be paired with survey to predict data''), s)
      | Some sv \<Rightarrow>
         (case matvec (xiMap_P (xiMap s)) v of Inl e \<Rightarrow> (Inl e, s) | Inr v1 \<Rightarrow>
         (case LinearVRM_A s of
            (Inl e, s1) \<Rightarrow> (Inl e, s1)
          | (Inr Ao, s1) \<Rightarrow>
             (case the_matrix Ao of Inl e \<Rightarrow> (Inl e, s1) | Inr Am \<Rightarrow>
             (case matvec Am v1 of Inl e \<Rightarrow> (Inl e, s1) | Inr v2 \<Rightarrow>
             (case LinearVRM_T s1 of
                (Inl e, s2) \<Rightarrow> (Inl e, s2)
              | (Inr To, s2) \<Rightarrow>
                 (case the_matrix To of Inl e \<Rightarrow> (Inl e, s2) | Inr Tm \<Rightarrow>
                 (case select_rows (tActive sv) Tm of Inl e \<Rightarrow> (Inl e, s2) | Inr Tact \<Rightarrow>
                    (matvec Tact v2, s2)))))))))"

definition LinearVRM_Jtvec :: "linearVRM \<Rightarrow> vec \<Rightarrow> vec \<Rightarrow> (error + vec) \<times> linearVRM" where
  "LinearVRM_Jtvec s m v =
     (case survey s of
        None \<Rightarrow> (Inl (AssertionError ''Problem must be paired with survey to predict data''), s)
      | Some sv \<Rightarrow>
         (case LinearVRM_T s of
            (Inl e, s1) \<Rightarrow> (Inl e, s1)
          | (Inr To, s1) \<Rightarrow>
             (case the_matrix To of Inl e \<Rightarrow> (Inl e, s1) | Inr Tm \<Rightarrow>
             (case select_rows (tActive sv) Tm of Inl e \<Rightarrow> (Inl e, s1) | Inr Tact \<Rightarrow>
             (case matvec (transpose_m Tact) v of Inl e \<Rightarrow> (Inl e, s1) | Inr v1 \<Rightarrow>
             (case LinearVRM_A s1 of
                (Inl e, s2) \<Rightarrow> (Inl e, s2)
              | (Inr Ao, s2) \<Rightarrow>
                 (case the_matrix Ao of Inl e \<Rightarrow> (Inl e, s2) | Inr Am \<Rightarrow>
                 (case vecmat v1 Am of Inl e \<Rightarrow> (Inl e, s2) | Inr v2 \<Rightarrow>
                    (matvec (transpose_m (xiMap_P (xiMap s))) v2, s2)))))))))"

text \<open>
  \<open>unpair\<close> returns at once on a problem that is not paired. Otherwise it clears the
  back pointer of the survey (the survey object itself is not part of the state), the
  survey of the problem, both cached operators and both flags.
\<close>

definition LinearVRM_unpair :: "linearVRM \<Rightarrow> linearVRM" where
  "LinearVRM_unpair s =
     (if \<not> ispaired s then s
      else s\<lparr>survey := None, A_linear := None, T_linear := None, AisSet := False, TisSet := False\<rparr>)"

section \<open>\<open>LogUniformVRM\<close>\<close>

text \<open>The property \<open>A\<close> of the log-uniform problem keeps the list of blocks unstacked.\<close>

definition LogUniformVRM_A :: "logUniformVRM \<Rightarrow> (error + matrix list option) \<times> logUniformVRM" where
  "LogUniformVRM_A s =
     (if \<not> AisSet s then
        (case survey s of
           None \<Rightarrow> (Inl (AssertionError ''Problem must be paired with survey to generate A matrix''), s)
         | Some sv \<Rightarrow>
             (let s1 = print ''CREATING A MATRIX'' (s\<lparr>A_loguniform := None\<rparr>)
              in case getAMatricies (mesh s) (indActive s) sv (refFact s) (refRadius s) of
                   Inl e \<Rightarrow> (Inl e, s1)
                 | Inr As \<Rightarrow> (Inr (Some As), s1\<lparr>A_loguniform := Some As, AisSet := True\<rparr>)))
      else (Inr (A_loguniform s), s))"

text \<open>
  The two nested loops of \<open>fields\<close>, one step per receiver. Each step carries the
  index \<open>qq\<close> of the receiver in the \<open>rxList\<close> of its source and the decay matrix
  \<open>eta\<close> of that receiver; it reads \<open>self.A[qq]\<close>, multiplies and flattens
  \<open>(self.A[qq] * eta).T\<close> in column-major order, which lists the product row by row.
\<close>

fun LogUniformVRM_fields_loop ::
    "logUniformVRM \<Rightarrow> (nat \<times> matrix) list \<Rightarrow> (error + vec list) \<times> logUniformVRM" where
  "LogUniformVRM_fields_loop s [] = (Inr [], s)"
| "LogUniformVRM_fields_loop s ((qq, eta) # rest) =
     (case LogUniformVRM_A s of
        (Inl e, s1) \<Rightarrow> (Inl e, s1)
      | (Inr Ao, s1) \<Rightarrow>
         (case the_matrix Ao of Inl e \<Rightarrow> (Inl e, s1) | Inr As \<Rightarrow>
            if \<not> qq < length As then (Inl (IndexError ''list index out of range''), s1)
            else (case matmul (As ! qq) eta of Inl e \<Rightarrow> (Inl e, s1) | Inr M \<Rightarrow>
                 (case LogUniformVRM_fields_loop s1 rest of
                    (Inl e, s2) \<Rightarrow> (Inl e, s2)
                  | (Inr f, s2) \<Rightarrow> (Inr (concat (rows M) # f), s2)))))"

definition LogUniformVRM_steps :: "surveyVRM \<Rightarrow> vec \<Rightarrow> vec \<Rightarrow> vec \<Rightarrow> vec \<Rightarrow> (nat \<times> matrix) list" where
  "LogUniformVRM_steps sv chi0 dchi tau1 tau2 =
     concat (map (\<lambda>src.
        map (\<lambda>qq. (qq, getLogUniformDecay (waveform src) (fieldType (rxList src ! qq))
                          (rx_times (rxList src ! qq)) chi0 dchi tau1 tau2))
            [0..<length (rxList src)])
        (srcList sv))"

definition LogUniformVRM_fields ::
    "logUniformVRM \<Rightarrow> vec \<Rightarrow> vec \<Rightarrow> vec \<Rightarrow> vec \<Rightarrow> (error + vec) \<times> logUniformVRM" where
  "LogUniformVRM_fields s m_chi0 m_dchi m_tau1 m_tau2 =
     (case survey s of
        None \<Rightarrow> (Inl (AssertionError ''Problem must be paired with survey to predict data''), s)
      | Some sv \<Rightarrow>
         (let chi0 = xiMap_apply (xiMap s) m_chi0;
              dchi = xiMap_apply (xiMap s) m_dchi;
              tau1 = xiMap_apply (xiMap s) m_tau1;
              tau2 = xiMap_apply (xiMap s) m_tau2
          in case LogUniformVRM_fields_loop s (LogUniformVRM_steps sv chi0 dchi tau1 tau2) of
               (Inl e, s1) \<Rightarrow> (Inl e, s1)
             | (Inr f, s1) \<Rightarrow>
                 if f = [] then (Inl (ValueError ''need at least one array to concatenate''), s1)
                 else (Inr (concat f), s1)))"

section \<open>Construction and configuration (\<open>BaseProblemVRM.__init__\<close>, setters)\<close>

text \<open>
  The keyword arguments of the constructor and the values written through the
  setters are arbitrary Python objects: scalars, and lists or numpy arrays of scalars.
\<close>

datatype pyscalar = PyNone | PyBool bool | PyInt int | PyFloat real | PyStr string

datatype pyval = Scalar pyscalar | PyList "pyscalar list" | NdArray "pyscalar list"

text \<open>\<open>isinstance(v, int)\<close>: \<open>bool\<close> is a subclass of \<open>int\<close>.\<close>

definition isinstance_int :: "pyval \<Rightarrow> bool" where
  "isinstance_int v =
     (case v of Scalar (PyInt i) \<Rightarrow> True | Scalar (PyBool b) \<Rightarrow> True | _ \<Rightarrow> False)"

definition isinstance_ndarray :: "pyval \<Rightarrow> bool" where
  "isinstance_ndarray v = (case v of NdArray xs \<Rightarrow> True | _ \<Rightarrow> False)"

text \<open>The integer value of an instance of \<open>int\<close> (\<open>True\<close> is 1 and \<open>False\<close> is 0).\<close>

definition int_of :: "pyval \<Rightarrow> int" where
  "int_of v =
     (case v of Scalar (PyInt i) \<Rightarrow> i | Scalar (PyBool b) \<Rightarrow> (if b then 1 else 0) | _ \<Rightarrow> 0)"

definition py_len :: "pyval \<Rightarrow> error + nat" where
  "py_len v =
     (case v of
        PyList xs \<Rightarrow> Inr (length xs)
      | NdArray xs \<Rightarrow> Inr (length xs)
      | Scalar (PyStr s) \<Rightarrow> Inr (length s)
      | _ \<Rightarrow> Inl (TypeError ''object has no len()''))"




text \<open>\<open>v != n\<close> for an integer \<open>n\<close>: numbers compare by value, anything else differs.\<close>

definition py_ne_int :: "pyval \<Rightarrow> int \<Rightarrow> bool" where
  "py_ne_int v n =
     (case v of
        Scalar (PyInt i) \<Rightarrow> i \<noteq> n
      | Scalar (PyBool b) \<Rightarrow> (if b then 1 else 0) \<noteq> n
      | Scalar (PyFloat f) \<Rightarrow> f \<noteq> real_of_int n
      | _ \<Rightarrow> True)"

text \<open>The warnings printed by the constructor and the setters.\<close>

definition warn_memory :: string where
  "warn_memory = ''Refinement factor larger than 4 may result in computations which exceed memory limits''"

definition warn_refFact_length :: string where
  "warn_refFact_length = ''Refinement factor no longer matches length of refinement radii array. Please ensure refinement factor is equal or less to number of elements in refinement radii''"

definition warn_refRadius_length :: string where
  "warn_refRadius_length = ''Refinement factor no longer matches length of refinement radii array. Please ensure that the number of elements in refinement radii is equal or greater than the refinement factor''"

text \<open>
  The configuration attributes of a problem object: \<open>_refFact\<close>, \<open>_refRadius\<close>,
  \<open>_indActive\<close> and the flag \<open>_AisSet\<close>, with the lines printed so far.
\<close>

record config =
  cfg_refFact :: pyval
  cfg_refRadius :: pyval
  cfg_indActive :: pyval
  cfg_AisSet :: bool
  cfg_stdout :: "string list"




definition cfg_print :: "string \<Rightarrow> config \<Rightarrow> config" where
  "cfg_print line c = c\<lparr>cfg_stdout := cfg_stdout c @ [line]\<rparr>"

definition refFact_setter :: "pyval \<Rightarrow> config \<Rightarrow> error + config" where
  "refFact_setter Val c =
     (if \<not> (isinstance_int Val \<and> int_of Val > - 1)
      then Inl (AssertionError ''Refinement factor must be an integer value equal or larger than 0'')
      else case py_len (cfg_refRadius c) of Inl e \<Rightarrow> Inl e | Inr n \<Rightarrow>
        (let c1 = (if int_of Val \<noteq> int n
                   then cfg_print warn_refFact_length c
                   else c);
             c2 = (if int_of Val > 4
                   then cfg_print warn_memory c1
                   else c1)
         in Inr (c2\<lparr>cfg_refFact := Val\<rparr>)))"

definition refRadius_setter :: "pyval \<Rightarrow> config \<Rightarrow> error + config" where
  "refRadius_setter Array c =
     (if \<not> isinstance_ndarray Array
      then Inl (AssertionError ''Array must be a numpy array'')
      else case py_len Array of Inl e \<Rightarrow> Inl e | Inr n \<Rightarrow>
        (let c1 = (if py_ne_int (cfg_refFact c) (int n)
                   then cfg_print warn_refRadius_length c
                   else c)
         in Inr (c1\<lparr>cfg_refRadius := Array\<rparr>)))"




text \<open>
  The default of \<open>refRadius\<close> is an argument of \<open>kwargs.get\<close> and is therefore
  evaluated whether the keyword is given or not:
  \<open>1.25*np.mean(np.r_[np.min(mesh.h[0]), np.min(mesh.h[1]), np.min(mesh.h[2])])*np.arange(1, self.refFact+1)\<close>.
  It raises IndexError on a mesh with fewer than three axes, ValueError on an axis
  without cells and TypeError when \<open>refFact + 1\<close> is not a number.
\<close>

definition arange_upto :: "pyval \<Rightarrow> error + nat" where
  "arange_upto v =
     (case v of
        Scalar (PyInt i) \<Rightarrow> Inr (nat i)
      | Scalar (PyBool b) \<Rightarrow> Inr (if b then 1 else 0)
      | Scalar (PyFloat f) \<Rightarrow> Inr (nat \<lceil>f\<rceil>)
      | _ \<Rightarrow> Inl (TypeError ''unsupported operand type(s) for +''))"

definition default_refRadius :: "tensor_mesh \<Rightarrow> pyval \<Rightarrow> error + pyval" where
  "default_refRadius meshObj rf =
     (if length (mesh_h meshObj) < 3 then Inl (IndexError ''list index out of range'')
      else case np_min (mesh_h meshObj ! 0) of Inl e \<Rightarrow> Inl e | Inr m0 \<Rightarrow>
          (case np_min (mesh_h meshObj ! 1) of Inl e \<Rightarrow> Inl e | Inr m1 \<Rightarrow>
          (case np_min (mesh_h meshObj ! 2) of Inl e \<Rightarrow> Inl e | Inr m2 \<Rightarrow>
          (case arange_upto rf of Inl e \<Rightarrow> Inl e | Inr n \<Rightarrow>
             Inr (NdArray (map (\<lambda>k. PyFloat (1.25 * ((m0 + m1 + m2) / 3) * real k)) [1..<n + 1]))))))"


text \<open>
  The invariants of the configuration: \<open>refFact\<close> is a non-negative integer, and
  \<open>refRadius\<close> has at least \<open>refFact\<close> entries.
\<close>

definition refFact_nonneg_int :: "config \<Rightarrow> bool" where
  "refFact_nonneg_int c = (isinstance_int (cfg_refFact c) \<and> 0 \<le> int_of (cfg_refFact c))"

definition enough_radii :: "config \<Rightarrow> bool" where
  "enough_radii c =
     (case py_len (cfg_refRadius c) of Inl e \<Rightarrow> False | Inr n \<Rightarrow> int_of (cfg_refFact c) \<le> int n)"

section \<open>Well-formed matrices\<close>

text \<open>Every row of a matrix has as many entries as the matrix has columns.\<close>

definition wf_matrix :: "matrix \<Rightarrow> bool" where
  "wf_matrix M = (\<forall>r \<in> set (rows M). length r = ncols M)"

section \<open>The refinement as the specification words it\<close>

text \<open>
  Following the specification: a cell with centre \<open>c\<close> and widths \<open>h\<close> refined with
  \<open>n\<close> sub-cells per axis has \<open>n^3\<close> children of widths \<open>h / n\<close>, their centres on
  the offset grid \<open>corner + (k - 0.5) * h / n\<close> per axis, \<open>k = 1..n\<close>, where
  \<open>corner = c - h / 2\<close>. The children are listed with the \<open>y\<close> index running
  fastest, then \<open>x\<close>, then \<open>z\<close>.
\<close>

definition children_of :: "nat \<Rightarrow> vec3 \<Rightarrow> vec3 \<Rightarrow> (vec3 \<times> vec3) list" where
  "children_of n c h =
     concat (map (\<lambda>kz. concat (map (\<lambda>kx. map (\<lambda>ky.
        ((x3 c - x3 h / 2 + (real kx - 1 / 2) * (x3 h / real n),
          y3 c - y3 h / 2 + (real ky - 1 / 2) * (y3 h / real n),
          z3 c - z3 h / 2 + (real kz - 1 / 2) * (z3 h / real n)),
         (x3 h / real n, y3 h / real n, z3 h / real n)))
        [1..<n + 1]) [1..<n + 1])) [1..<n + 1])"

text \<open>The cells flagged at level \<open>qq\<close>, in order, as pairs of centre and widths.\<close>

definition flagged_cells :: "vec3 list \<Rightarrow> vec3 list \<Rightarrow> int list \<Rightarrow> nat \<Rightarrow> (vec3 \<times> vec3) list" where
  "flagged_cells xyzc xyzh refFlag qq =
     map snd (filter (\<lambda>(f, cell). f = int qq) (zip refFlag (zip xyzc xyzh)))"

text \<open>
  The sensitivities of a list of cells for one source: the prism kernel on the cells
  times the embedding of the inducing field sampled at their centres.
\<close>

definition cell_sensitivity :: "source \<Rightarrow> (vec3 \<times> vec3) list \<Rightarrow> error + matrix" where
  "cell_sensitivity srcObj cells =
     (case getGeometryMatrix (map fst cells) (map snd cells) srcObj of Inl e \<Rightarrow> Inl e | Inr G \<Rightarrow>
     (case getH0matrix (map fst cells) srcObj of Inl e \<Rightarrow> Inl e | Inr H0 \<Rightarrow> matmul G H0))"

text \<open>
  The sensitivities of all children of the cells flagged at level \<open>qq\<close>, the children
  of one cell side by side.
\<close>

definition children_sensitivity ::
    "source \<Rightarrow> vec3 list \<Rightarrow> vec3 list \<Rightarrow> int list \<Rightarrow> nat \<Rightarrow> error + matrix" where
  "children_sensitivity srcObj xyzc xyzh refFlag qq =
     cell_sensitivity srcObj
       (concat (map (\<lambda>(c, h). children_of (2 ^ qq) c h) (flagged_cells xyzc xyzh refFlag qq)))"

section \<open>A concrete problem\<close>

text \<open>
  One unit cell with centre \<open>(1/2, 1/2, 1/2)\<close>, one source with a vertical inducing
  field and one \<open>z\<close> receiver above the cell with two time channels. The instances
  below are the inputs at which the theorems are instantiated.
\<close>

definition ex_rx :: receiver where
  "ex_rx = \<lparr>fieldComp = Comp_z, locs = [(1/2, 1/2, 2)], rx_times = [1, 2], fieldType = ''dbdt''\<rparr>"

definition ex_wave :: waveform where
  "ex_wave = \<lparr>getCharDecay = (\<lambda>ft ts. map (\<lambda>t. 1 / t) ts),
              getLogUniformDecay = (\<lambda>ft ts chi0 dchi tau1 tau2.
                 \<lparr>ncols = length ts, rows = map (\<lambda>c. map (\<lambda>t. c / t) ts) dchi\<rparr>)\<rparr>"

definition ex_src :: source where
  "ex_src = \<lparr>rxList = [ex_rx], waveform = ex_wave,
             getH0 = (\<lambda>xyz. map (\<lambda>p. (0, 0, 1)) xyz),
             getRefineFlags = (\<lambda>xyz rf rr. map (\<lambda>p. 0) xyz)\<rparr>"

definition ex_survey :: surveyVRM where
  "ex_survey = \<lparr>srcList = [ex_src], tActive = [True, False]\<rparr>"

definition ex_mesh :: tensor_mesh where
  "ex_mesh = \<lparr>mesh_h = [[1], [1], [1]], nC = 1, gridCC = [(1/2, 1/2, 1/2)], gridH = [(1, 1, 1)]\<rparr>"

definition ex_xiMap :: xiMapping where
  "ex_xiMap = \<lparr>xiMap_apply = (\<lambda>m. m), xiMap_P = \<lparr>ncols = 1, rows = [[1]]\<rparr>\<rparr>"

definition ex_linear :: linearVRM where
  "ex_linear = \<lparr>mesh = ex_mesh, refFact = 0, refRadius = [], indActive = [True], AisSet = False,
                xiMap = ex_xiMap, survey = Some ex_survey, stdout = [],
                A_linear = None, T_linear = None, TisSet = False\<rparr>"

definition ex_A :: matrix where
  "ex_A = \<lparr>ncols = 1, rows = [[kernel_C * Gzz (1/2) (- (1/2)) (1/2) (- (1/2)) 2 1]]\<rparr>"

definition ex_T :: matrix where
  "ex_T = \<lparr>ncols = 1, rows = [[1], [1/2]]\<rparr>"

definition ex_unpaired :: linearVRM where
  "ex_unpaired = ex_linear\<lparr>survey := None\<rparr>"

text \<open>The problem \<open>ex_linear\<close> after \<open>A\<close> and \<open>T\<close> have been read once.\<close>

definition ex_built :: linearVRM where
  "ex_built = ex_linear\<lparr>stdout := [''CREATING A MATRIX'', ''CREATING T MATRIX''],
                         A_linear := Some ex_A, AisSet := True,
                         T_linear := Some ex_T, TisSet := True\<rparr>"

definition ex_loguniform :: logUniformVRM where
  "ex_loguniform = \<lparr>mesh = ex_mesh, refFact = 0, refRadius = [], indActive = [True], AisSet = False,
                    xiMap = ex_xiMap, survey = Some ex_survey, stdout = [],
                    A_loguniform = None\<rparr>"

definition ex_loguniform_unpaired :: logUniformVRM where
  "ex_loguniform_unpaired = ex_loguniform\<lparr>survey := None\<rparr>"

text \<open>A configuration with three refinement levels and three radii.\<close>

definition ex_cfg :: config where
  "ex_cfg = \<lparr>cfg_refFact = Scalar (PyInt 3),
             cfg_refRadius = NdArray [PyFloat 1, PyFloat 2, PyFloat 3],
             cfg_indActive = NdArray [PyBool True],
             cfg_AisSet = False,
             cfg_stdout = []\<rparr>"




text \<open>A survey whose single source has two receivers, and the log-uniform problem paired with it.\<close>

definition ex_rx2 :: receiver where
  "ex_rx2 = \<lparr>fieldComp = Comp_x, locs = [(3/2, 1/2, 2)], rx_times = [1, 2], fieldType = ''dbdt''\<rparr>"

definition ex_survey2 :: surveyVRM where
  "ex_survey2 = \<lparr>srcList = [ex_src\<lparr>rxList := [ex_rx, ex_rx2]\<rparr>], tActive = [True, True, True, True]\<rparr>"

definition ex_loguniform2 :: logUniformVRM where
  "ex_loguniform2 = ex_loguniform\<lparr>survey := Some ex_survey2\<rparr>"

text \<open>
  Two unit cells side by side, and a source that flags the cells with centre left of
  \<open>x = 1\<close> at level 1 and all others at level 0.
\<close>

definition ex_mesh2 :: tensor_mesh where
  "ex_mesh2 = \<lparr>mesh_h = [[1, 1], [1], [1]], nC = 2,
               gridCC = [(1/2, 1/2, 1/2), (3/2, 1/2, 1/2)], gridH = [(1, 1, 1), (1, 1, 1)]\<rparr>"



text \<open>
  The linear and the log-uniform problem on the two cells of \<open>ex_mesh2\<close>, both
  active, with the survey \<open>ex_survey\<close>; the row of \<open>A\<close> for the two cells; and the
  two problems after their operators have been read once.
\<close>

definition ex_linear2 :: linearVRM where
  "ex_linear2 = ex_linear\<lparr>mesh := ex_mesh2, indActive := [True, True]\<rparr>"

definition ex_A2 :: matrix where
  "ex_A2 = \<lparr>ncols = 2, rows = [[kernel_C * Gzz (1/2) (- (1/2)) (1/2) (- (1/2)) 2 1,
                                 kernel_C * Gzz (- (1/2)) (- (3/2)) (1/2) (- (1/2)) 2 1]]\<rparr>"

definition ex_built2 :: linearVRM where
  "ex_built2 = ex_linear2\<lparr>stdout := [''CREATING A MATRIX'', ''CREATING T MATRIX''],
                           A_linear := Some ex_A2, AisSet := True,
                           T_linear := Some ex_T, TisSet := True\<rparr>"

definition ex_loguniform3 :: logUniformVRM where
  "ex_loguniform3 = ex_loguniform\<lparr>mesh := ex_mesh2, indActive := [True, True]\<rparr>"

definition ex_loguniform3_built :: logUniformVRM where
  "ex_loguniform3_built = ex_loguniform3\<lparr>stdout := [''CREATING A MATRIX''],
                                          A_loguniform := Some [ex_A2], AisSet := True\<rparr>"

section \<open>Properties of the prism kernel\<close>

lemma length_nudge: "length (nudge d r) = length d"
  by (simp add: nudge_def)


lemma corner_differences_ok:
  assumes "xyzh \<noteq> []"
  shows "corner_differences xyzc xyzh loc =
     Inr (nudge (map (\<lambda>a. x3 loc - a) (map2 (\<lambda>c h. x3 c - x3 h / 2) xyzc xyzh)) (min_list (map x3 xyzh) / 1000),
          nudge (map (\<lambda>b. x3 loc - b) (map2 (\<lambda>c h. x3 c + x3 h / 2) xyzc xyzh)) (- min_list (map x3 xyzh) / 1000),
          nudge (map (\<lambda>a. y3 loc - a) (map2 (\<lambda>c h. y3 c - y3 h / 2) xyzc xyzh)) (min_list (map y3 xyzh) / 1000),
          nudge (map (\<lambda>b. y3 loc - b) (map2 (\<lambda>c h. y3 c + y3 h / 2) xyzc xyzh)) (- min_list (map y3 xyzh) / 1000),
          nudge (map (\<lambda>a. z3 loc - a) (map2 (\<lambda>c h. z3 c - z3 h / 2) xyzc xyzh)) (min_list (map z3 xyzh) / 1000),
          nudge (map (\<lambda>b. z3 loc - b) (map2 (\<lambda>c h. z3 c + z3 h / 2) xyzc xyzh)) (- min_list (map z3 xyzh) / 1000))"
  using assms by (simp add: corner_differences_def np_min_def)

lemma corner_differences_empty:
  "corner_differences xyzc [] loc =
     Inl (ValueError ''zero-size array to reduction operation minimum which has no identity'')"
  by (simp add: corner_differences_def np_min_def)

lemma getGeometryRow_ok:
  assumes "xyzh \<noteq> []"
  shows "\<exists>row. getGeometryRow xyzc xyzh dComp loc = Inr row \<and> length row = 3 * length xyzc"
  using assms
  by (cases dComp) (simp_all add: getGeometryRow_def corner_differences_ok)


lemma getGeometryRow_entries:
  assumes "xyzh \<noteq> []" and "corner_differences xyzc xyzh loc = Inr (u1, u2, v1, v2, w1, w2)"
    and "j < length xyzc"
  shows "\<exists>rx ry rz.
     getGeometryRow xyzc xyzh Comp_x loc = Inr rx \<and>
     getGeometryRow xyzc xyzh Comp_y loc = Inr ry \<and>
     getGeometryRow xyzc xyzh Comp_z loc = Inr rz \<and>
     rx ! j = kernel_C * Gxx (u1 ! j) (u2 ! j) (v1 ! j) (v2 ! j) (w1 ! j) (w2 ! j) \<and>
     ry ! (length xyzc + j) = kernel_C * Gyy (u1 ! j) (u2 ! j) (v1 ! j) (v2 ! j) (w1 ! j) (w2 ! j) \<and>
     rz ! (2 * length xyzc + j) = kernel_C * Gzz (u1 ! j) (u2 ! j) (v1 ! j) (v2 ! j) (w1 ! j) (w2 ! j)"
  using assms(2,3)
  by (simp add: getGeometryRow_def nth_append)

text \<open>
  Claim C10. For all six corner differences the self-term \<open>Gzz\<close> is the negative of
  the sum of the self-terms \<open>Gxx\<close> and \<open>Gyy\<close>: the first eight terms of \<open>Gzz\<close>
  negate the series of \<open>Gxx\<close> and the second eight negate the series of \<open>Gyy\<close>.
  So for every receiver location and every prism \<open>j\<close> of a non-empty array of cells,
  the \<open>zz\<close> entry of the kernel row of a \<open>z\<close> receiver is the negative of the sum of
  the \<open>xx\<close> entry of the row of an \<open>x\<close> receiver and the \<open>yy\<close> entry of the row
  of a \<open>y\<close> receiver at the same location, all three evaluated at the same nudged
  corner differences: the diagonal of the sensitivity tensor sums to zero (in exact
  real arithmetic).
\<close>

theorem Gzz_trace_free:
  "Gzz u1 u2 v1 v2 w1 w2 = - (Gxx u1 u2 v1 v2 w1 w2 + Gyy u1 u2 v1 v2 w1 w2) \<and>
   (xyzh \<noteq> [] \<and> j < length xyzc \<longrightarrow>
      (\<exists>rx ry rz.
         getGeometryRow xyzc xyzh Comp_x loc = Inr rx \<and>
         getGeometryRow xyzc xyzh Comp_y loc = Inr ry \<and>
         getGeometryRow xyzc xyzh Comp_z loc = Inr rz \<and>
         rz ! (2 * length xyzc + j) = - (rx ! j + ry ! (length xyzc + j))))"
proof -
  have s: "Gzz a1 a2 b1 b2 c1 c2 = - (Gxx a1 a2 b1 b2 c1 c2 + Gyy a1 a2 b1 b2 c1 c2)"
    for a1 a2 b1 b2 c1 c2
    by (simp add: Gzz_def Gzz_first_def Gxx_def Gyy_def)
  have r: "\<exists>rx ry rz.
         getGeometryRow xyzc xyzh Comp_x loc = Inr rx \<and>
         getGeometryRow xyzc xyzh Comp_y loc = Inr ry \<and>
         getGeometryRow xyzc xyzh Comp_z loc = Inr rz \<and>
         rz ! (2 * length xyzc + j) = - (rx ! j + ry ! (length xyzc + j))"
    if ne: "xyzh \<noteq> []" and j: "j < length xyzc"
  proof -
    from corner_differences_ok [OF ne, of xyzc loc]
    obtain d1 d2 e1 e2 f1 f2 where d: "corner_differences xyzc xyzh loc = Inr (d1, d2, e1, e2, f1, f2)"
      by blast
    from getGeometryRow_entries [OF ne d j] show ?thesis
      by (auto simp: s algebra_simps)
  qed
  from s r show ?thesis by blast
qed

theorem Gzz_trace_free_witness:
  "[(1, 1, 1) :: vec3] \<noteq> [] \<and> (0::nat) < length [(1/2, 1/2, 1/2) :: vec3] \<and>
   Gzz (1/2) (- (1/2)) (1/2) (- (1/2)) 2 1 =
     - (Gxx (1/2) (- (1/2)) (1/2) (- (1/2)) 2 1 + Gyy (1/2) (- (1/2)) (1/2) (- (1/2)) 2 1) \<and>
   (\<exists>rx ry rz.
      getGeometryRow [(1/2, 1/2, 1/2)] [(1, 1, 1)] Comp_x (1/2, 1/2, 2) = Inr rx \<and>
      getGeometryRow [(1/2, 1/2, 1/2)] [(1, 1, 1)] Comp_y (1/2, 1/2, 2) = Inr ry \<and>
      getGeometryRow [(1/2, 1/2, 1/2)] [(1, 1, 1)] Comp_z (1/2, 1/2, 2) = Inr rz \<and>
      rz ! 2 = - (rx ! 0 + ry ! 1))"
  using Gzz_trace_free [of "1/2" "- (1/2)" "1/2" "- (1/2)" 2 1 "[(1, 1, 1)]" 0 "[(1/2, 1/2, 1/2)]" "(1/2, 1/2, 2)"]
  by simp








section \<open>Properties of the cached operators\<close>

lemma ex_linear_A:
  "LinearVRM_A ex_linear =
     (Inr (Some ex_A), ex_linear\<lparr>stdout := [''CREATING A MATRIX''], A_linear := Some ex_A, AisSet := True\<rparr>)"
  by (simp add: LinearVRM_A_def ex_linear_def ex_A_def print_def getAMatricies_def ex_mesh_def select_def
      getAblock_def getGeometryMatrix_def ex_survey_def ex_src_def ex_rx_def getGeometryRow_def corner_differences_def
      np_min_def x3_def y3_def z3_def nudge_def Let_def getH0matrix_def diags_def vstack_def
      matmul_def nrows_def col_def dot_def)

lemma ex_linear_T:
  "LinearVRM_T ex_linear =
     (Inr (Some ex_T), ex_linear\<lparr>stdout := [''CREATING T MATRIX''], T_linear := Some ex_T, TisSet := True\<rparr>)"
  by (simp add: LinearVRM_T_def ex_linear_def ex_T_def print_def block_diag_def getTblocks_def
      ex_survey_def ex_src_def ex_rx_def ex_wave_def kron_def diags_def col_matrix_def)

lemma is_boolean_array_bool: "is_boolean_array xs"
  unfolding is_boolean_array_def by (induction xs) auto

lemma LinearVRM_A_reread:
  "LinearVRM_A s = (Inr Ao, s1) \<Longrightarrow> LinearVRM_A s1 = (Inr Ao, s1)"
  by (auto simp: LinearVRM_A_def Let_def print_def split: if_splits option.splits sum.splits)

lemma LinearVRM_T_reread:
  "LinearVRM_T s = (Inr To, s1) \<Longrightarrow> LinearVRM_T s1 = (Inr To, s1)"
  by (auto simp: LinearVRM_T_def Let_def print_def split: if_splits option.splits sum.splits)

lemma LogUniformVRM_A_reread:
  "LogUniformVRM_A s = (Inr Ao, s1) \<Longrightarrow> LogUniformVRM_A s1 = (Inr Ao, s1)"
  by (auto simp: LogUniformVRM_A_def Let_def print_def split: if_splits option.splits sum.splits)

text \<open>
  Claim C7. With no paired survey, \<open>fields\<close>, \<open>Jvec\<close> and \<open>Jtvec\<close> of the linear
  problem, \<open>fields\<close> of the log-uniform problem and every read of \<open>A\<close> or \<open>T\<close> that
  has to build the operator raise the AssertionError naming the missing pairing, and
  leave the problem unchanged. On a paired problem \<open>unpair\<close> clears the survey, both
  cached operators and both flags; on a problem that is not paired it returns at once.
\<close>

theorem not_paired_and_unpair:
  fixes s :: linearVRM and t :: logUniformVRM
  shows
    "(survey s = None \<longrightarrow>
        LinearVRM_fields s m = (Inl (AssertionError ''Problem must be paired with survey to predict data''), s) \<and>
        LinearVRM_Jvec s m v = (Inl (AssertionError ''Problem must be paired with survey to predict data''), s) \<and>
        LinearVRM_Jtvec s m v = (Inl (AssertionError ''Problem must be paired with survey to predict data''), s) \<and>
        (\<not> AisSet s \<longrightarrow>
           LinearVRM_A s = (Inl (AssertionError ''Problem must be paired with survey to generate A matrix''), s)) \<and>
        (\<not> TisSet s \<longrightarrow>
           LinearVRM_T s = (Inl (AssertionError ''Problem must be paired with survey to generate T matrix''), s)) \<and>
        LinearVRM_unpair s = s) \<and>
     (survey t = None \<longrightarrow>
        LogUniformVRM_fields t c0 dc t1 t2 =
          (Inl (AssertionError ''Problem must be paired with survey to predict data''), t) \<and>
        (\<not> AisSet t \<longrightarrow>
           LogUniformVRM_A t = (Inl (AssertionError ''Problem must be paired with survey to generate A matrix''), t))) \<and>
     (survey s \<noteq> None \<longrightarrow>
        survey (LinearVRM_unpair s) = None \<and>
        A_linear (LinearVRM_unpair s) = None \<and> T_linear (LinearVRM_unpair s) = None \<and>
        \<not> AisSet (LinearVRM_unpair s) \<and> \<not> TisSet (LinearVRM_unpair s))"
  by (simp add: LinearVRM_fields_def LinearVRM_Jvec_def LinearVRM_Jtvec_def LinearVRM_A_def
      LinearVRM_T_def LogUniformVRM_fields_def LogUniformVRM_A_def LinearVRM_unpair_def ispaired_def)

theorem not_paired_and_unpair_witness:
  "survey ex_unpaired = None \<and> \<not> AisSet ex_unpaired \<and> \<not> TisSet ex_unpaired \<and>
   LinearVRM_fields ex_unpaired [1] =
     (Inl (AssertionError ''Problem must be paired with survey to predict data''), ex_unpaired) \<and>
   LinearVRM_Jvec ex_unpaired [1] [1] =
     (Inl (AssertionError ''Problem must be paired with survey to predict data''), ex_unpaired) \<and>
   LinearVRM_Jtvec ex_unpaired [1] [1] =
     (Inl (AssertionError ''Problem must be paired with survey to predict data''), ex_unpaired) \<and>
   LinearVRM_A ex_unpaired =
     (Inl (AssertionError ''Problem must be paired with survey to generate A matrix''), ex_unpaired) \<and>
   LinearVRM_T ex_unpaired =
     (Inl (AssertionError ''Problem must be paired with survey to generate T matrix''), ex_unpaired) \<and>
   survey ex_loguniform_unpaired = None \<and> \<not> AisSet ex_loguniform_unpaired \<and>
   LogUniformVRM_fields ex_loguniform_unpaired [1] [1] [1] [1] =
     (Inl (AssertionError ''Problem must be paired with survey to predict data''), ex_loguniform_unpaired) \<and>
   LogUniformVRM_A ex_loguniform_unpaired =
     (Inl (AssertionError ''Problem must be paired with survey to generate A matrix''), ex_loguniform_unpaired) \<and>
   survey ex_built \<noteq> None \<and> A_linear ex_built \<noteq> None \<and> T_linear ex_built \<noteq> None \<and>
   AisSet ex_built \<and> TisSet ex_built \<and>
   survey (LinearVRM_unpair ex_built) = None \<and>
   A_linear (LinearVRM_unpair ex_built) = None \<and> T_linear (LinearVRM_unpair ex_built) = None \<and>
   \<not> AisSet (LinearVRM_unpair ex_built) \<and> \<not> TisSet (LinearVRM_unpair ex_built)"
proof -
  have u: "survey ex_unpaired = None" "\<not> AisSet ex_unpaired" "\<not> TisSet ex_unpaired"
    by (simp_all add: ex_unpaired_def ex_linear_def)
  have l: "survey ex_loguniform_unpaired = None" "\<not> AisSet ex_loguniform_unpaired"
    by (simp_all add: ex_loguniform_unpaired_def ex_loguniform_def)
  have b: "survey ex_built \<noteq> None" "A_linear ex_built \<noteq> None" "T_linear ex_built \<noteq> None"
      "AisSet ex_built" "TisSet ex_built"
    by (simp_all add: ex_built_def ex_linear_def)
  show ?thesis
    using not_paired_and_unpair [of ex_unpaired "[1]" "[1]" ex_loguniform_unpaired "[1]" "[1]" "[1]" "[1]"]
      not_paired_and_unpair [of ex_built "[1]" "[1]" ex_loguniform_unpaired "[1]" "[1]" "[1]" "[1]"]
      u l b
    by simp
qed

lemma ex_built_reached:
  "LinearVRM_T (snd (LinearVRM_A ex_linear)) = (Inr (Some ex_T), ex_built)"
  apply (subst ex_linear_A)
  apply (simp add: LinearVRM_T_def ex_linear_def ex_built_def ex_T_def print_def block_diag_def
        getTblocks_def ex_survey_def ex_src_def ex_rx_def ex_wave_def kron_def diags_def col_matrix_def)
  done

lemma ex_mesh2_blocks_all:
  "getAMatricies ex_mesh2 [True, True] ex_survey 0 [] = Inr [ex_A2]"
  by (simp add: ex_A2_def getAMatricies_def ex_mesh2_def select_def
      getAblock_def getGeometryMatrix_def ex_survey_def ex_src_def ex_rx_def getGeometryRow_def corner_differences_def
      np_min_def x3_def y3_def z3_def nudge_def Let_def getH0matrix_def diags_def vstack_def
      matmul_def nrows_def col_def dot_def upt_conv_Cons)

lemma ex_mesh2_blocks_first:
  "getAMatricies ex_mesh2 [True, False] ex_survey 0 [] = Inr [ex_A]"
  by (simp add: ex_A_def getAMatricies_def ex_mesh2_def select_def
      getAblock_def getGeometryMatrix_def ex_survey_def ex_src_def ex_rx_def getGeometryRow_def corner_differences_def
      np_min_def x3_def y3_def z3_def nudge_def Let_def getH0matrix_def diags_def vstack_def
      matmul_def nrows_def col_def dot_def)

lemma vstack_single: "vstack [M] = Inr M"
  by (simp add: vstack_def)

lemma ex_linear2_A:
  "LinearVRM_A ex_linear2 =
     (Inr (Some ex_A2),
      ex_linear2\<lparr>stdout := [''CREATING A MATRIX''], A_linear := Some ex_A2, AisSet := True\<rparr>)"
  by (simp add: LinearVRM_A_def ex_linear2_def ex_linear_def print_def ex_mesh2_blocks_all vstack_single)

lemma ex_linear2_T:
  "LinearVRM_T ex_linear2 =
     (Inr (Some ex_T),
      ex_linear2\<lparr>stdout := [''CREATING T MATRIX''], T_linear := Some ex_T, TisSet := True\<rparr>)"
  by (simp add: LinearVRM_T_def ex_linear2_def ex_linear_def ex_T_def print_def block_diag_def getTblocks_def
      ex_survey_def ex_src_def ex_rx_def ex_wave_def kron_def diags_def col_matrix_def)

lemma ex_loguniform3_A:
  "LogUniformVRM_A ex_loguniform3 =
     (Inr (Some [ex_A2]),
      ex_loguniform3\<lparr>stdout := [''CREATING A MATRIX''], A_loguniform := Some [ex_A2], AisSet := True\<rparr>)"
  by (simp add: LogUniformVRM_A_def ex_loguniform3_def ex_loguniform_def print_def ex_mesh2_blocks_all)

text \<open>
  Claim C4, as stated, fails: writing \<open>indActive\<close> or \<open>xiMap\<close> clears the flag of
  \<open>A\<close> only. On the problem \<open>ex_built\<close>, reached by reading \<open>A\<close> and \<open>T\<close>, the
  flag of \<open>T\<close> is still set after either write and the next read of \<open>T\<close> returns
  the cached matrix without building (the state, and so the printed output, is
  unchanged).
\<close>

theorem T_survives_setters_counterexample:
  "snd (LinearVRM_T (snd (LinearVRM_A ex_linear))) = ex_built \<and>
   indActive_setter [False] ex_built = Inr (ex_built\<lparr>AisSet := False, indActive := [False]\<rparr>) \<and>
   TisSet (ex_built\<lparr>AisSet := False, indActive := [False]\<rparr>) \<and>
   LinearVRM_T (ex_built\<lparr>AisSet := False, indActive := [False]\<rparr>) =
     (Inr (Some ex_T), ex_built\<lparr>AisSet := False, indActive := [False]\<rparr>) \<and>
   TisSet (xiMap_setter ex_xiMap ex_built) \<and>
   LinearVRM_T (xiMap_setter ex_xiMap ex_built) = (Inr (Some ex_T), xiMap_setter ex_xiMap ex_built)"
proof -
  have r: "snd (LinearVRM_T (snd (LinearVRM_A ex_linear))) = ex_built"
    by (simp add: ex_built_reached)
  have b: "TisSet ex_built" "T_linear ex_built = Some ex_T"
    by (simp_all add: ex_built_def ex_linear_def)
  have i: "indActive_setter [False] ex_built = Inr (ex_built\<lparr>AisSet := False, indActive := [False]\<rparr>)"
    by (simp add: indActive_setter_def is_boolean_array_bool)
  show ?thesis
    using r b i by (simp add: xiMap_setter_def LinearVRM_T_def)
qed

text \<open>
  Claim C4, amended. For the linear and for the log-uniform problem, a read of \<open>A\<close>
  (and of \<open>T\<close> for the linear problem) that returns an operator leaves a state in
  which the next read returns the same operator and changes nothing, so nothing is
  built or printed again. After a write to \<open>indActive\<close> or to \<open>xiMap\<close> on a paired
  problem the next read of \<open>A\<close> does not return the cached operator: it prints
  \<open>CREATING A MATRIX\<close>, builds the blocks from the mesh, the survey and the mask as
  they are after the write, and returns and caches what it has built (or returns the
  error of the build, with nothing cached). The same writes keep the flag and the
  cached value of \<open>T\<close>, which the next read of \<open>T\<close> returns as it is.
  \<open>LinearVRM.unpair\<close> on a paired problem clears both flags and both cached
  operators.
\<close>

theorem cache_stability_and_invalidation:
  fixes s :: linearVRM and t :: logUniformVRM
  shows
    "(LinearVRM_A s = (Inr Ao, s1) \<longrightarrow> LinearVRM_A s1 = (Inr Ao, s1)) \<and>
     (LinearVRM_T s = (Inr To, s2) \<longrightarrow> LinearVRM_T s2 = (Inr To, s2)) \<and>
     (LogUniformVRM_A t = (Inr Bo, t1) \<longrightarrow> LogUniformVRM_A t1 = (Inr Bo, t1)) \<and>
     (indActive_setter Vec s = Inr s3 \<and> survey s = Some sv \<longrightarrow>
        LinearVRM_A s3 =
          (let s4 = s\<lparr>indActive := Vec, AisSet := False, A_linear := None,
                      stdout := stdout s @ [''CREATING A MATRIX'']\<rparr>
           in case getAMatricies (mesh s) Vec sv (refFact s) (refRadius s) of
                Inl e \<Rightarrow> (Inl e, s4)
              | Inr As \<Rightarrow>
                  (case vstack As of
                     Inl e \<Rightarrow> (Inl e, s4)
                   | Inr Am \<Rightarrow> (Inr (Some Am), s4\<lparr>A_linear := Some Am, AisSet := True\<rparr>)))) \<and>
     (indActive_setter Vec s = Inr s3 \<longrightarrow>
        TisSet s3 = TisSet s \<and> T_linear s3 = T_linear s \<and>
        (TisSet s \<longrightarrow> LinearVRM_T s3 = (Inr (T_linear s), s3))) \<and>
     (survey s = Some sv \<longrightarrow>
        LinearVRM_A (xiMap_setter mappingObj s) =
          (let s4 = s\<lparr>xiMap := mappingObj, AisSet := False, A_linear := None,
                      stdout := stdout s @ [''CREATING A MATRIX'']\<rparr>
           in case getAMatricies (mesh s) (indActive s) sv (refFact s) (refRadius s) of
                Inl e \<Rightarrow> (Inl e, s4)
              | Inr As \<Rightarrow>
                  (case vstack As of
                     Inl e \<Rightarrow> (Inl e, s4)
                   | Inr Am \<Rightarrow> (Inr (Some Am), s4\<lparr>A_linear := Some Am, AisSet := True\<rparr>)))) \<and>
     TisSet (xiMap_setter mappingObj s) = TisSet s \<and>
     T_linear (xiMap_setter mappingObj s) = T_linear s \<and>
     (TisSet s \<longrightarrow>
        LinearVRM_T (xiMap_setter mappingObj s) = (Inr (T_linear s), xiMap_setter mappingObj s)) \<and>
     (indActive_setter Vec t = Inr t3 \<and> survey t = Some sv \<longrightarrow>
        LogUniformVRM_A t3 =
          (let t4 = t\<lparr>indActive := Vec, AisSet := False, A_loguniform := None,
                      stdout := stdout t @ [''CREATING A MATRIX'']\<rparr>
           in case getAMatricies (mesh t) Vec sv (refFact t) (refRadius t) of
                Inl e \<Rightarrow> (Inl e, t4)
              | Inr As \<Rightarrow> (Inr (Some As), t4\<lparr>A_loguniform := Some As, AisSet := True\<rparr>))) \<and>
     (survey t = Some sv \<longrightarrow>
        LogUniformVRM_A (xiMap_setter mappingObj t) =
          (let t4 = t\<lparr>xiMap := mappingObj, AisSet := False, A_loguniform := None,
                      stdout := stdout t @ [''CREATING A MATRIX'']\<rparr>
           in case getAMatricies (mesh t) (indActive t) sv (refFact t) (refRadius t) of
                Inl e \<Rightarrow> (Inl e, t4)
              | Inr As \<Rightarrow> (Inr (Some As), t4\<lparr>A_loguniform := Some As, AisSet := True\<rparr>))) \<and>
     (survey s \<noteq> None \<longrightarrow>
        \<not> AisSet (LinearVRM_unpair s) \<and> \<not> TisSet (LinearVRM_unpair s) \<and>
        A_linear (LinearVRM_unpair s) = None \<and> T_linear (LinearVRM_unpair s) = None)"
proof -
  have a: "LinearVRM_A s = (Inr Ao, s1) \<longrightarrow> LinearVRM_A s1 = (Inr Ao, s1)"
    using LinearVRM_A_reread by blast
  have b: "LinearVRM_T s = (Inr To, s2) \<longrightarrow> LinearVRM_T s2 = (Inr To, s2)"
    using LinearVRM_T_reread by blast
  have c: "LogUniformVRM_A t = (Inr Bo, t1) \<longrightarrow> LogUniformVRM_A t1 = (Inr Bo, t1)"
    using LogUniformVRM_A_reread by blast
  have d: "indActive_setter Vec s = Inr s3 \<and> survey s = Some sv \<longrightarrow>
        LinearVRM_A s3 =
          (let s4 = s\<lparr>indActive := Vec, AisSet := False, A_linear := None,
                      stdout := stdout s @ [''CREATING A MATRIX'']\<rparr>
           in case getAMatricies (mesh s) Vec sv (refFact s) (refRadius s) of
                Inl e \<Rightarrow> (Inl e, s4)
              | Inr As \<Rightarrow>
                  (case vstack As of
                     Inl e \<Rightarrow> (Inl e, s4)
                   | Inr Am \<Rightarrow> (Inr (Some Am), s4\<lparr>A_linear := Some Am, AisSet := True\<rparr>)))"
    by (auto simp: indActive_setter_def LinearVRM_A_def Let_def print_def
        split: if_splits sum.splits)
  have e: "indActive_setter Vec s = Inr s3 \<longrightarrow>
        TisSet s3 = TisSet s \<and> T_linear s3 = T_linear s \<and>
        (TisSet s \<longrightarrow> LinearVRM_T s3 = (Inr (T_linear s), s3))"
    by (auto simp: indActive_setter_def LinearVRM_T_def split: if_splits)
  have f: "survey s = Some sv \<longrightarrow>
        LinearVRM_A (xiMap_setter mappingObj s) =
          (let s4 = s\<lparr>xiMap := mappingObj, AisSet := False, A_linear := None,
                      stdout := stdout s @ [''CREATING A MATRIX'']\<rparr>
           in case getAMatricies (mesh s) (indActive s) sv (refFact s) (refRadius s) of
                Inl e \<Rightarrow> (Inl e, s4)
              | Inr As \<Rightarrow>
                  (case vstack As of
                     Inl e \<Rightarrow> (Inl e, s4)
                   | Inr Am \<Rightarrow> (Inr (Some Am), s4\<lparr>A_linear := Some Am, AisSet := True\<rparr>)))"
    by (auto simp: xiMap_setter_def LinearVRM_A_def Let_def print_def split: sum.splits)
  have g: "TisSet (xiMap_setter mappingObj s) = TisSet s"
      "T_linear (xiMap_setter mappingObj s) = T_linear s"
      "TisSet s \<longrightarrow>
        LinearVRM_T (xiMap_setter mappingObj s) = (Inr (T_linear s), xiMap_setter mappingObj s)"
    by (simp_all add: xiMap_setter_def LinearVRM_T_def)
  have h: "indActive_setter Vec t = Inr t3 \<and> survey t = Some sv \<longrightarrow>
        LogUniformVRM_A t3 =
          (let t4 = t\<lparr>indActive := Vec, AisSet := False, A_loguniform := None,
                      stdout := stdout t @ [''CREATING A MATRIX'']\<rparr>
           in case getAMatricies (mesh t) Vec sv (refFact t) (refRadius t) of
                Inl e \<Rightarrow> (Inl e, t4)
              | Inr As \<Rightarrow> (Inr (Some As), t4\<lparr>A_loguniform := Some As, AisSet := True\<rparr>))"
    by (auto simp: indActive_setter_def LogUniformVRM_A_def Let_def print_def
        split: if_splits sum.splits)
  have i: "survey t = Some sv \<longrightarrow>
        LogUniformVRM_A (xiMap_setter mappingObj t) =
          (let t4 = t\<lparr>xiMap := mappingObj, AisSet := False, A_loguniform := None,
                      stdout := stdout t @ [''CREATING A MATRIX'']\<rparr>
           in case getAMatricies (mesh t) (indActive t) sv (refFact t) (refRadius t) of
                Inl e \<Rightarrow> (Inl e, t4)
              | Inr As \<Rightarrow> (Inr (Some As), t4\<lparr>A_loguniform := Some As, AisSet := True\<rparr>))"
    by (auto simp: xiMap_setter_def LogUniformVRM_A_def Let_def print_def split: sum.splits)
  have u: "survey s \<noteq> None \<longrightarrow>
        \<not> AisSet (LinearVRM_unpair s) \<and> \<not> TisSet (LinearVRM_unpair s) \<and>
        A_linear (LinearVRM_unpair s) = None \<and> T_linear (LinearVRM_unpair s) = None"
    by (simp add: LinearVRM_unpair_def ispaired_def)
  from a b c d e f g h i u show ?thesis by blast
qed

theorem cache_stability_and_invalidation_witness:
  "LinearVRM_A ex_linear2 = (Inr (Some ex_A2), snd (LinearVRM_A ex_linear2)) \<and>
   LinearVRM_A (snd (LinearVRM_A ex_linear2)) = (Inr (Some ex_A2), snd (LinearVRM_A ex_linear2)) \<and>
   LinearVRM_T ex_linear2 = (Inr (Some ex_T), snd (LinearVRM_T ex_linear2)) \<and>
   LinearVRM_T (snd (LinearVRM_T ex_linear2)) = (Inr (Some ex_T), snd (LinearVRM_T ex_linear2)) \<and>
   LogUniformVRM_A ex_loguniform3 = (Inr (Some [ex_A2]), snd (LogUniformVRM_A ex_loguniform3)) \<and>
   LogUniformVRM_A (snd (LogUniformVRM_A ex_loguniform3)) =
     (Inr (Some [ex_A2]), snd (LogUniformVRM_A ex_loguniform3)) \<and>
   survey ex_built2 = Some ex_survey \<and> AisSet ex_built2 \<and> A_linear ex_built2 = Some ex_A2 \<and>
   TisSet ex_built2 \<and> T_linear ex_built2 = Some ex_T \<and> ex_A \<noteq> ex_A2 \<and>
   indActive_setter [True, False] ex_built2 =
     Inr (ex_built2\<lparr>AisSet := False, indActive := [True, False]\<rparr>) \<and>
   LinearVRM_A (ex_built2\<lparr>AisSet := False, indActive := [True, False]\<rparr>) =
     (Inr (Some ex_A),
      ex_built2\<lparr>indActive := [True, False],
                 stdout := [''CREATING A MATRIX'', ''CREATING T MATRIX'', ''CREATING A MATRIX''],
                 A_linear := Some ex_A, AisSet := True\<rparr>) \<and>
   LinearVRM_T (ex_built2\<lparr>AisSet := False, indActive := [True, False]\<rparr>) =
     (Inr (Some ex_T), ex_built2\<lparr>AisSet := False, indActive := [True, False]\<rparr>) \<and>
   LinearVRM_A (xiMap_setter ex_xiMap ex_built2) =
     (Inr (Some ex_A2),
      ex_built2\<lparr>xiMap := ex_xiMap,
                 stdout := [''CREATING A MATRIX'', ''CREATING T MATRIX'', ''CREATING A MATRIX''],
                 A_linear := Some ex_A2, AisSet := True\<rparr>) \<and>
   LinearVRM_T (xiMap_setter ex_xiMap ex_built2) = (Inr (Some ex_T), xiMap_setter ex_xiMap ex_built2) \<and>
   survey ex_loguniform3_built = Some ex_survey \<and> AisSet ex_loguniform3_built \<and>
   A_loguniform ex_loguniform3_built = Some [ex_A2] \<and>
   indActive_setter [True, False] ex_loguniform3_built =
     Inr (ex_loguniform3_built\<lparr>AisSet := False, indActive := [True, False]\<rparr>) \<and>
   LogUniformVRM_A (ex_loguniform3_built\<lparr>AisSet := False, indActive := [True, False]\<rparr>) =
     (Inr (Some [ex_A]),
      ex_loguniform3_built\<lparr>indActive := [True, False],
                            stdout := [''CREATING A MATRIX'', ''CREATING A MATRIX''],
                            A_loguniform := Some [ex_A], AisSet := True\<rparr>) \<and>
   LogUniformVRM_A (xiMap_setter ex_xiMap ex_loguniform3_built) =
     (Inr (Some [ex_A2]),
      ex_loguniform3_built\<lparr>xiMap := ex_xiMap,
                            stdout := [''CREATING A MATRIX'', ''CREATING A MATRIX''],
                            A_loguniform := Some [ex_A2], AisSet := True\<rparr>) \<and>
   \<not> AisSet (LinearVRM_unpair ex_built2) \<and> \<not> TisSet (LinearVRM_unpair ex_built2) \<and>
   A_linear (LinearVRM_unpair ex_built2) = None \<and> T_linear (LinearVRM_unpair ex_built2) = None"
proof -
  let ?s3 = "ex_built2\<lparr>AisSet := False, indActive := [True, False]\<rparr>"
  let ?t3 = "ex_loguniform3_built\<lparr>AisSet := False, indActive := [True, False]\<rparr>"
  have a: "LinearVRM_A ex_linear2 = (Inr (Some ex_A2), snd (LinearVRM_A ex_linear2))"
    by (simp add: ex_linear2_A)
  have b: "LinearVRM_T ex_linear2 = (Inr (Some ex_T), snd (LinearVRM_T ex_linear2))"
    by (simp add: ex_linear2_T)
  have c: "LogUniformVRM_A ex_loguniform3 = (Inr (Some [ex_A2]), snd (LogUniformVRM_A ex_loguniform3))"
    by (simp add: ex_loguniform3_A)
  note first = cache_stability_and_invalidation [where s = ex_linear2
      and Ao = "Some ex_A2" and ?s1.0 = "snd (LinearVRM_A ex_linear2)"
      and To = "Some ex_T" and ?s2.0 = "snd (LinearVRM_T ex_linear2)"
      and t = ex_loguniform3 and Bo = "Some [ex_A2]" and ?t1.0 = "snd (LogUniformVRM_A ex_loguniform3)"]
  have a': "LinearVRM_A (snd (LinearVRM_A ex_linear2)) = (Inr (Some ex_A2), snd (LinearVRM_A ex_linear2))"
    using first a by blast
  have b': "LinearVRM_T (snd (LinearVRM_T ex_linear2)) = (Inr (Some ex_T), snd (LinearVRM_T ex_linear2))"
    using first b by blast
  have c': "LogUniformVRM_A (snd (LogUniformVRM_A ex_loguniform3)) =
     (Inr (Some [ex_A2]), snd (LogUniformVRM_A ex_loguniform3))"
    using first c by blast
  have sb: "survey ex_built2 = Some ex_survey" "AisSet ex_built2" "A_linear ex_built2 = Some ex_A2"
      "TisSet ex_built2" "T_linear ex_built2 = Some ex_T" "survey ex_built2 \<noteq> None"
      "mesh ex_built2 = ex_mesh2" "refFact ex_built2 = 0" "refRadius ex_built2 = []"
      "indActive ex_built2 = [True, True]"
      "stdout ex_built2 = [''CREATING A MATRIX'', ''CREATING T MATRIX'']"
    by (simp_all add: ex_built2_def ex_linear2_def ex_linear_def)
  have tb: "survey ex_loguniform3_built = Some ex_survey" "AisSet ex_loguniform3_built"
      "A_loguniform ex_loguniform3_built = Some [ex_A2]"
      "mesh ex_loguniform3_built = ex_mesh2" "refFact ex_loguniform3_built = 0"
      "refRadius ex_loguniform3_built = []" "indActive ex_loguniform3_built = [True, True]"
      "stdout ex_loguniform3_built = [''CREATING A MATRIX'']"
    by (simp_all add: ex_loguniform3_built_def ex_loguniform3_def ex_loguniform_def)
  have ne: "ex_A \<noteq> ex_A2"
    by (simp add: ex_A_def ex_A2_def)
  have si: "indActive_setter [True, False] ex_built2 = Inr ?s3"
    by (simp add: indActive_setter_def is_boolean_array_bool)
  have ti: "indActive_setter [True, False] ex_loguniform3_built = Inr ?t3"
    by (simp add: indActive_setter_def is_boolean_array_bool)
  note second = cache_stability_and_invalidation [where s = ex_built2 and t = ex_loguniform3_built
      and Vec = "[True, False]" and ?s3.0 = ?s3 and ?t3.0 = ?t3 and sv = ex_survey
      and mappingObj = ex_xiMap]
  have d: "LinearVRM_A ?s3 =
     (Inr (Some ex_A),
      ex_built2\<lparr>indActive := [True, False],
                 stdout := [''CREATING A MATRIX'', ''CREATING T MATRIX'', ''CREATING A MATRIX''],
                 A_linear := Some ex_A, AisSet := True\<rparr>)"
    using second si sb by (simp add: ex_mesh2_blocks_first vstack_single)
  have e: "LinearVRM_T ?s3 = (Inr (Some ex_T), ?s3)"
    using second si sb by simp
  have f: "LinearVRM_A (xiMap_setter ex_xiMap ex_built2) =
     (Inr (Some ex_A2),
      ex_built2\<lparr>xiMap := ex_xiMap,
                 stdout := [''CREATING A MATRIX'', ''CREATING T MATRIX'', ''CREATING A MATRIX''],
                 A_linear := Some ex_A2, AisSet := True\<rparr>)"
    using second sb by (simp add: ex_mesh2_blocks_all vstack_single)
  have g: "LinearVRM_T (xiMap_setter ex_xiMap ex_built2) = (Inr (Some ex_T), xiMap_setter ex_xiMap ex_built2)"
    using second sb by simp
  have h: "LogUniformVRM_A ?t3 =
     (Inr (Some [ex_A]),
      ex_loguniform3_built\<lparr>indActive := [True, False],
                            stdout := [''CREATING A MATRIX'', ''CREATING A MATRIX''],
                            A_loguniform := Some [ex_A], AisSet := True\<rparr>)"
    using second ti tb by (simp add: ex_mesh2_blocks_first)
  have i: "LogUniformVRM_A (xiMap_setter ex_xiMap ex_loguniform3_built) =
     (Inr (Some [ex_A2]),
      ex_loguniform3_built\<lparr>xiMap := ex_xiMap,
                            stdout := [''CREATING A MATRIX'', ''CREATING A MATRIX''],
                            A_loguniform := Some [ex_A2], AisSet := True\<rparr>)"
    using second tb by (simp add: ex_mesh2_blocks_all)
  have u: "\<not> AisSet (LinearVRM_unpair ex_built2)" "\<not> TisSet (LinearVRM_unpair ex_built2)"
      "A_linear (LinearVRM_unpair ex_built2) = None" "T_linear (LinearVRM_unpair ex_built2) = None"
    using second sb by blast+
  show ?thesis
    by (intro conjI) (rule a a' b b' c c' sb(1-5) ne si d e f g tb(1-3) ti h i u)+
qed

section \<open>Properties of construction and configuration\<close>








lemma default_refRadius_returns:
  assumes "length (mesh_h m) = 3" "\<forall>a \<in> set (mesh_h m). a \<noteq> []" "isinstance_int rf"
  shows "\<exists>d. default_refRadius m rf = Inr d"
proof -
  have "mesh_h m ! 0 \<noteq> []" "mesh_h m ! 1 \<noteq> []" "mesh_h m ! 2 \<noteq> []"
    using assms(1,2) by (simp_all add: all_set_conv_all_nth)
  moreover have "\<exists>n. arange_upto rf = Inr n"
    using assms(3) by (auto simp: isinstance_int_def arange_upto_def split: pyval.splits pyscalar.splits)
  ultimately show ?thesis
    using assms(1) by (auto simp: default_refRadius_def np_min_def)
qed




text \<open>
  Claim C8, as stated, fails: on a configuration with \<open>refFact = 3\<close> and three radii
  the \<open>refRadius\<close> setter accepts an empty array and the \<open>refFact\<close> setter accepts
  the factor 4; both print the warning and store the value, after which
  \<open>len(refRadius) \<ge> refFact\<close> no longer holds.
\<close>

theorem setters_break_enough_radii_counterexample:
  "refFact_nonneg_int ex_cfg \<and> enough_radii ex_cfg \<and>
   refRadius_setter (NdArray []) ex_cfg =
     Inr (ex_cfg\<lparr>cfg_stdout := [warn_refRadius_length], cfg_refRadius := NdArray []\<rparr>) \<and>
   \<not> enough_radii (ex_cfg\<lparr>cfg_stdout := [warn_refRadius_length], cfg_refRadius := NdArray []\<rparr>) \<and>
   refFact_setter (Scalar (PyInt 4)) ex_cfg =
     Inr (ex_cfg\<lparr>cfg_stdout := [warn_refFact_length], cfg_refFact := Scalar (PyInt 4)\<rparr>) \<and>
   \<not> enough_radii (ex_cfg\<lparr>cfg_stdout := [warn_refFact_length], cfg_refFact := Scalar (PyInt 4)\<rparr>)"
  by (simp add: ex_cfg_def refFact_nonneg_int_def enough_radii_def refRadius_setter_def
      refFact_setter_def isinstance_int_def isinstance_ndarray_def int_of_def py_len_def
      py_ne_int_def cfg_print_def)

text \<open>
  Claim C8, amended. The \<open>refFact\<close> setter rejects every value that is not an
  integer of at least 0, so after every write it accepts \<open>refFact\<close> is a non-negative
  integer; the \<open>refRadius\<close> setter rejects every value that is not a numpy array.
  Neither setter enforces \<open>len(refRadius) \<ge> refFact\<close>: a valid factor is accepted
  against radii of any length and an array of any length is accepted, the other
  attribute being kept and a warning printed when the factor and the length differ.
\<close>

theorem setters_validation:
  "(\<not> (isinstance_int Val \<and> 0 \<le> int_of Val) \<longrightarrow>
      refFact_setter Val c =
        Inl (AssertionError ''Refinement factor must be an integer value equal or larger than 0'')) \<and>
   (refFact_setter Val c = Inr c' \<longrightarrow>
      refFact_nonneg_int c' \<and> cfg_refFact c' = Val \<and> cfg_refRadius c' = cfg_refRadius c) \<and>
   (isinstance_int Val \<and> 0 \<le> int_of Val \<and> py_len (cfg_refRadius c) = Inr n \<longrightarrow>
      (\<exists>c''. refFact_setter Val c = Inr c'' \<and>
         (int_of Val \<noteq> int n \<longrightarrow> cfg_stdout c'' \<noteq> cfg_stdout c))) \<and>
   (\<not> isinstance_ndarray Array \<longrightarrow>
      refRadius_setter Array c = Inl (AssertionError ''Array must be a numpy array'')) \<and>
   (isinstance_ndarray Array \<longrightarrow>
      (\<exists>c''. refRadius_setter Array c = Inr c'' \<and>
         cfg_refRadius c'' = Array \<and> cfg_refFact c'' = cfg_refFact c \<and>
         (\<forall>k. py_len Array = Inr k \<and> py_ne_int (cfg_refFact c) (int k) \<longrightarrow> cfg_stdout c'' \<noteq> cfg_stdout c)))"
proof -
  have a: "\<not> (isinstance_int Val \<and> 0 \<le> int_of Val) \<longrightarrow>
      refFact_setter Val c =
        Inl (AssertionError ''Refinement factor must be an integer value equal or larger than 0'')"
    by (auto simp: refFact_setter_def)
  have b: "refFact_setter Val c = Inr c' \<longrightarrow>
      refFact_nonneg_int c' \<and> cfg_refFact c' = Val \<and> cfg_refRadius c' = cfg_refRadius c"
    by (auto simp: refFact_setter_def refFact_nonneg_int_def Let_def cfg_print_def
        split: if_splits sum.splits)
  have d: "isinstance_int Val \<and> 0 \<le> int_of Val \<and> py_len (cfg_refRadius c) = Inr n \<longrightarrow>
      (\<exists>c''. refFact_setter Val c = Inr c'' \<and>
         (int_of Val \<noteq> int n \<longrightarrow> cfg_stdout c'' \<noteq> cfg_stdout c))"
    by (auto simp: refFact_setter_def Let_def cfg_print_def)
  have e: "\<not> isinstance_ndarray Array \<longrightarrow>
      refRadius_setter Array c = Inl (AssertionError ''Array must be a numpy array'')"
    by (simp add: refRadius_setter_def)
  have f: "isinstance_ndarray Array \<longrightarrow>
      (\<exists>c''. refRadius_setter Array c = Inr c'' \<and>
         cfg_refRadius c'' = Array \<and> cfg_refFact c'' = cfg_refFact c \<and>
         (\<forall>k. py_len Array = Inr k \<and> py_ne_int (cfg_refFact c) (int k) \<longrightarrow> cfg_stdout c'' \<noteq> cfg_stdout c))"
    by (auto simp: refRadius_setter_def isinstance_ndarray_def py_len_def Let_def cfg_print_def
        split: pyval.splits)
  from a b d e f show ?thesis by blast
qed

theorem setters_validation_witness:
  "\<not> (isinstance_int (Scalar (PyInt (- 1))) \<and> 0 \<le> int_of (Scalar (PyInt (- 1)))) \<and>
   refFact_setter (Scalar (PyInt (- 1))) ex_cfg =
     Inl (AssertionError ''Refinement factor must be an integer value equal or larger than 0'') \<and>
   isinstance_int (Scalar (PyInt 4)) \<and> 0 \<le> int_of (Scalar (PyInt 4)) \<and>
   py_len (cfg_refRadius ex_cfg) = Inr 3 \<and> int_of (Scalar (PyInt 4)) \<noteq> int 3 \<and>
   refFact_setter (Scalar (PyInt 4)) ex_cfg =
     Inr (ex_cfg\<lparr>cfg_stdout := [warn_refFact_length], cfg_refFact := Scalar (PyInt 4)\<rparr>) \<and>
   refFact_nonneg_int (ex_cfg\<lparr>cfg_stdout := [warn_refFact_length], cfg_refFact := Scalar (PyInt 4)\<rparr>) \<and>
   \<not> isinstance_ndarray (PyList []) \<and>
   refRadius_setter (PyList []) ex_cfg = Inl (AssertionError ''Array must be a numpy array'') \<and>
   isinstance_ndarray (NdArray []) \<and>
   (\<exists>c''. refRadius_setter (NdArray []) ex_cfg = Inr c'' \<and> cfg_refRadius c'' = NdArray [] \<and>
      cfg_refFact c'' = cfg_refFact ex_cfg \<and> cfg_stdout c'' \<noteq> cfg_stdout ex_cfg)"
proof -
  let ?c4 = "ex_cfg\<lparr>cfg_stdout := [warn_refFact_length], cfg_refFact := Scalar (PyInt 4)\<rparr>"
  have h1: "\<not> (isinstance_int (Scalar (PyInt (- 1))) \<and> 0 \<le> int_of (Scalar (PyInt (- 1))))"
    by (simp add: int_of_def)
  have h2: "isinstance_int (Scalar (PyInt 4))" "0 \<le> int_of (Scalar (PyInt 4))"
      "py_len (cfg_refRadius ex_cfg) = Inr 3" "int_of (Scalar (PyInt 4)) \<noteq> int 3"
    by (simp_all add: isinstance_int_def int_of_def ex_cfg_def py_len_def)
  have h3: "refFact_setter (Scalar (PyInt 4)) ex_cfg = Inr ?c4"
    by (simp add: refFact_setter_def isinstance_int_def int_of_def ex_cfg_def py_len_def cfg_print_def)
  have h4: "\<not> isinstance_ndarray (PyList [])" "isinstance_ndarray (NdArray [])"
    by (simp_all add: isinstance_ndarray_def)
  have h5: "py_len (NdArray []) = Inr 0" "py_ne_int (cfg_refFact ex_cfg) (int 0)"
    by (simp_all add: py_len_def py_ne_int_def ex_cfg_def)
  show ?thesis
    using setters_validation [of "Scalar (PyInt (- 1))" ex_cfg ?c4 3 "PyList []"]
      setters_validation [of "Scalar (PyInt 4)" ex_cfg ?c4 3 "NdArray []"]
      h1 h2 h3 h4 h5
    by auto
qed

section \<open>Linear algebra of the list matrices\<close>

lemma dot_sum:
  "length x = length y \<Longrightarrow> dot x y = (\<Sum>i<length x. x ! i * y ! i)"
  by (simp add: dot_def sum_list_sum_nth atLeast0LessThan)

lemma dot_commute: "dot x y = dot y x"
proof -
  have "map2 (*) x y = map2 (*) y x"
  proof (induction x arbitrary: y)
    case Nil
    then show ?case by simp
  next
    case (Cons a x)
    then show ?case by (cases y) (simp_all add: mult.commute)
  qed
  then show ?thesis by (simp add: dot_def)
qed

lemma dot_zeros: "dot r (replicate n 0) = 0"
proof (induction r arbitrary: n)
  case Nil
  then show ?case by (simp add: dot_def)
next
  case (Cons a r)
  then show ?case by (cases n) (simp_all add: dot_def)
qed

lemma length_col: "length (col M j) = nrows M"
  by (simp add: col_def nrows_def)

lemma nth_col: "i < nrows M \<Longrightarrow> col M j ! i = rows M ! i ! j"
  by (simp add: col_def nrows_def)

lemma matvec_zeros: "matvec M (replicate (ncols M) 0) = Inr (replicate (nrows M) 0)"
  by (simp add: matvec_def dot_zeros nrows_def map_replicate_const)

lemma adjoint_core:
  assumes wf: "wf_matrix M" and v: "length v = ncols M" and w: "length w = nrows M"
  shows "dot w (map (\<lambda>r. dot r v) (rows M)) = dot (map (\<lambda>j. dot (col M j) w) [0..<ncols M]) v"
proof -
  have rl: "\<And>i. i < nrows M \<Longrightarrow> length (rows M ! i) = ncols M"
    using wf by (simp add: wf_matrix_def nrows_def)
  have "dot w (map (\<lambda>r. dot r v) (rows M)) = (\<Sum>i<nrows M. w ! i * dot (rows M ! i) v)"
    using w by (simp add: dot_sum nrows_def)
  also have "\<dots> = (\<Sum>i<nrows M. w ! i * (\<Sum>j<ncols M. rows M ! i ! j * v ! j))"
    using rl v by (simp add: dot_sum)
  also have "\<dots> = (\<Sum>i<nrows M. \<Sum>j<ncols M. w ! i * (rows M ! i ! j * v ! j))"
    by (simp add: sum_distrib_left)
  also have "\<dots> = (\<Sum>j<ncols M. \<Sum>i<nrows M. w ! i * (rows M ! i ! j * v ! j))"
    by (rule sum.swap)
  also have "\<dots> = (\<Sum>j<ncols M. (\<Sum>i<nrows M. rows M ! i ! j * w ! i) * v ! j)"
    by (intro sum.cong refl) (simp add: sum_distrib_left sum_distrib_right mult_ac)
  also have "\<dots> = (\<Sum>j<ncols M. dot (col M j) w * v ! j)"
    using w by (simp add: dot_sum length_col nth_col)
  also have "\<dots> = dot (map (\<lambda>j. dot (col M j) w) [0..<ncols M]) v"
    using v by (simp add: dot_sum)
  finally show ?thesis .
qed

lemma matvec_transpose:
  "length w = nrows M \<Longrightarrow>
     matvec (transpose_m M) w = Inr (map (\<lambda>j. dot (col M j) w) [0..<ncols M])"
  by (simp add: matvec_def transpose_m_def comp_def)

lemma matvec_adjoint:
  assumes "wf_matrix M" and "length v = ncols M" and "length w = nrows M"
  shows "\<exists>y z. matvec M v = Inr y \<and> matvec (transpose_m M) w = Inr z \<and>
           length y = nrows M \<and> length z = ncols M \<and> dot w y = dot z v"
  using assms adjoint_core [OF assms]
  by (simp add: matvec_transpose) (simp add: matvec_def nrows_def)

lemma vecmat_transpose:
  "length w = nrows M \<Longrightarrow> vecmat w M = matvec (transpose_m M) w"
  by (simp add: vecmat_def matvec_transpose dot_commute)
section \<open>Properties of the linear forward and adjoint operations\<close>

lemma LinearVRM_A_after_T:
  "LinearVRM_T s = (r, sT) \<Longrightarrow> LinearVRM_A s = (Inr Ao, sA) \<Longrightarrow>
     \<exists>sA'. LinearVRM_A sT = (Inr Ao, sA')"
  by (auto simp: LinearVRM_A_def LinearVRM_T_def Let_def print_def
      split: if_splits option.splits sum.splits)

lemma LinearVRM_T_after_A:
  "LinearVRM_A s = (r, sA) \<Longrightarrow> LinearVRM_T s = (Inr To, sT) \<Longrightarrow>
     \<exists>sT'. LinearVRM_T sA = (Inr To, sT')"
  by (auto simp: LinearVRM_A_def LinearVRM_T_def Let_def print_def
      split: if_splits option.splits sum.splits)

lemma select_rows_ok:
  assumes "length msk = nrows M" and "wf_matrix M"
  shows "\<exists>Ma. select_rows msk M = Inr Ma \<and> wf_matrix Ma \<and> ncols Ma = ncols M \<and>
           nrows Ma = length (filter id msk)"
proof -
  have len: "length (filter fst (zip msk (rows M))) = length (filter id msk)"
    using assms(1) unfolding nrows_def
  proof (induction msk "rows M" arbitrary: M rule: list_induct2)
    case Nil
    then show ?case by simp
  next
    case (Cons b bs r rs)
    have "length (filter fst (zip bs (rows (M\<lparr>rows := rs\<rparr>)))) = length (filter id bs)"
      by (rule Cons.hyps(2)) simp
    with Cons.hyps(3) [symmetric] show ?case by simp
  qed
  have sub: "\<forall>r \<in> set (map snd (filter fst (zip msk (rows M)))). length r = ncols M"
    using assms(2) by (auto simp: wf_matrix_def dest: set_zip_rightD)
  show ?thesis
    using assms(1) len sub
    by (simp add: select_rows_def select_def nrows_def wf_matrix_def)
qed

text \<open>
  Claim C9. On a paired problem whose reads of \<open>A\<close> and \<open>T\<close> return the operators
  \<open>Am\<close> and \<open>Tm\<close>, \<open>fields m\<close> is \<open>Tm\<close> applied to \<open>Am\<close> applied to the
  mapped model, with the shape errors of the two products. If the parameter map
  sends the zero model to the zero vector over the columns of \<open>Am\<close>, \<open>fields\<close> of
  the zero model is the zero vector with one entry per row of \<open>Tm\<close>.
\<close>

theorem fields_formula_and_zero_model:
  assumes "survey s \<noteq> None"
    and "LinearVRM_A s = (Inr (Some Am), sA)"
    and "LinearVRM_T s = (Inr (Some Tm), sT)"
  shows "fst (LinearVRM_fields s m) =
           (case matvec Am (xiMap_apply (xiMap s) m) of Inl e \<Rightarrow> Inl e | Inr y \<Rightarrow> matvec Tm y) \<and>
         (xiMap_apply (xiMap s) (replicate n 0) = replicate (ncols Am) 0 \<and> nrows Am = ncols Tm \<longrightarrow>
            fst (LinearVRM_fields s (replicate n 0)) = Inr (replicate (nrows Tm) 0))"
proof -
  from LinearVRM_A_after_T [OF assms(3) assms(2)]
  obtain sA' where a: "LinearVRM_A sT = (Inr (Some Am), sA')" by blast
  have f: "fst (LinearVRM_fields s k) =
           (case matvec Am (xiMap_apply (xiMap s) k) of Inl e \<Rightarrow> Inl e | Inr y \<Rightarrow> matvec Tm y)" for k
    using assms(1) assms(3) a
    by (simp add: LinearVRM_fields_def ispaired_def the_matrix_def Let_def split: sum.splits)
  have z: "fst (LinearVRM_fields s (replicate n 0)) = Inr (replicate (nrows Tm) 0)"
    if "xiMap_apply (xiMap s) (replicate n 0) = replicate (ncols Am) 0" "nrows Am = ncols Tm"
    using that matvec_zeros [of Am] matvec_zeros [of Tm] by (simp add: f)
  from f z show ?thesis by blast
qed

theorem fields_formula_and_zero_model_witness:
  "survey ex_linear \<noteq> None \<and>
   LinearVRM_A ex_linear = (Inr (Some ex_A), snd (LinearVRM_A ex_linear)) \<and>
   LinearVRM_T ex_linear = (Inr (Some ex_T), snd (LinearVRM_T ex_linear)) \<and>
   xiMap_apply (xiMap ex_linear) (replicate 1 0) = replicate (ncols ex_A) 0 \<and>
   nrows ex_A = ncols ex_T \<and>
   fst (LinearVRM_fields ex_linear [3]) =
     Inr [kernel_C * Gzz (1/2) (- (1/2)) (1/2) (- (1/2)) 2 1 * 3,
          1 / 2 * (kernel_C * Gzz (1/2) (- (1/2)) (1/2) (- (1/2)) 2 1 * 3)] \<and>
   fst (LinearVRM_fields ex_linear (replicate 1 0)) = Inr [0, 0]"
proof -
  have p: "survey ex_linear \<noteq> None" by (simp add: ex_linear_def)
  have a: "LinearVRM_A ex_linear = (Inr (Some ex_A), snd (LinearVRM_A ex_linear))"
    by (simp add: ex_linear_A)
  have t: "LinearVRM_T ex_linear = (Inr (Some ex_T), snd (LinearVRM_T ex_linear))"
    by (simp add: ex_linear_T)
  have x: "xiMap_apply (xiMap ex_linear) (replicate 1 0) = replicate (ncols ex_A) 0"
      "nrows ex_A = ncols ex_T" "xiMap_apply (xiMap ex_linear) [3] = [3]"
    by (simp_all add: ex_linear_def ex_xiMap_def ex_A_def ex_T_def nrows_def)
  have m: "matvec ex_A [3] = Inr [kernel_C * Gzz (1/2) (- (1/2)) (1/2) (- (1/2)) 2 1 * 3]"
    by (simp add: matvec_def ex_A_def dot_def)
  have m2: "matvec ex_T [y] = Inr [y, 1 / 2 * y]" for y
    by (simp add: matvec_def ex_T_def dot_def)
  show ?thesis
    using fields_formula_and_zero_model [OF p a t, of "[3]" 1] p a t x m m2
    by (simp add: nrows_def ex_T_def)
qed

text \<open>
  Claim C1. On a paired linear problem with operators \<open>Am\<close> and \<open>Tm\<close> and
  projection \<open>P\<close> of matching shapes, for every \<open>v\<close> of model length and every \<open>w\<close>
  with one entry per active time row, \<open>Jvec\<close> and \<open>Jtvec\<close> both return, and the
  inner product of \<open>w\<close> with \<open>Jvec m v\<close> equals the inner product of \<open>v\<close> with
  \<open>Jtvec m w\<close>: \<open>Jtvec\<close> multiplies by the transposes of the active rows of \<open>Tm\<close>,
  of \<open>Am\<close> and of \<open>P\<close>, in this order.
\<close>

theorem adjoint_consistency:
  assumes "survey s = Some sv"
    and "LinearVRM_A s = (Inr (Some Am), sA)"
    and "LinearVRM_T s = (Inr (Some Tm), sT)"
    and "wf_matrix (xiMap_P (xiMap s))" and "wf_matrix Am" and "wf_matrix Tm"
    and "length v = ncols (xiMap_P (xiMap s))"
    and "nrows (xiMap_P (xiMap s)) = ncols Am"
    and "nrows Am = ncols Tm"
    and "length (tActive sv) = nrows Tm"
    and "length w = length (filter id (tActive sv))"
  shows "\<exists>jv jtv. fst (LinearVRM_Jvec s m v) = Inr jv \<and> fst (LinearVRM_Jtvec s m w) = Inr jtv \<and>
           length jv = length w \<and> length jtv = length v \<and> dot w jv = dot v jtv"
proof -
  let ?P = "xiMap_P (xiMap s)"
  from select_rows_ok [OF assms(10) assms(6)]
  obtain Ta where Ta: "select_rows (tActive sv) Tm = Inr Ta" "wf_matrix Ta" "ncols Ta = ncols Tm"
      "nrows Ta = length (filter id (tActive sv))"
    by blast
  from LinearVRM_T_after_A [OF assms(2) assms(3)]
  obtain sT' where tA: "LinearVRM_T sA = (Inr (Some Tm), sT')" by blast
  from LinearVRM_A_after_T [OF assms(3) assms(2)]
  obtain sA' where aT: "LinearVRM_A sT = (Inr (Some Am), sA')" by blast
  have wTa: "length w = nrows Ta" using Ta(4) assms(11) by simp
  from matvec_transpose [OF wTa]
  have x1: "matvec (transpose_m Ta) w = Inr (map (\<lambda>j. dot (col Ta j) w) [0..<ncols Ta])" .
  define y1 where "y1 = map (\<lambda>j. dot (col Ta j) w) [0..<ncols Ta]"
  have ly1: "length y1 = nrows Am" by (simp add: y1_def Ta(3) assms(9))
  from matvec_transpose [OF ly1]
  have x2: "matvec (transpose_m Am) y1 = Inr (map (\<lambda>j. dot (col Am j) y1) [0..<ncols Am])" .
  define y2 where "y2 = map (\<lambda>j. dot (col Am j) y1) [0..<ncols Am]"
  have ly2: "length y2 = nrows ?P" by (simp add: y2_def assms(8))
  from matvec_transpose [OF ly2]
  have x3: "matvec (transpose_m ?P) y2 = Inr (map (\<lambda>j. dot (col ?P j) y2) [0..<ncols ?P])" .
  define y3 where "y3 = map (\<lambda>j. dot (col ?P j) y2) [0..<ncols ?P]"
  define z1 where "z1 = map (\<lambda>r. dot r v) (rows ?P)"
  have lz1: "length z1 = ncols Am" by (simp add: z1_def assms(8) [symmetric] nrows_def)
  have m1: "matvec ?P v = Inr z1" by (simp add: matvec_def z1_def assms(7))
  define z2 where "z2 = map (\<lambda>r. dot r z1) (rows Am)"
  have lz2: "length z2 = ncols Ta" by (simp add: z2_def Ta(3) assms(9) [symmetric] nrows_def)
  have m2: "matvec Am z1 = Inr z2" by (simp add: matvec_def z2_def lz1)
  define z3 where "z3 = map (\<lambda>r. dot r z2) (rows Ta)"
  have m3: "matvec Ta z2 = Inr z3" by (simp add: matvec_def z3_def lz2)
  have jv: "fst (LinearVRM_Jvec s m v) = Inr z3"
    using assms(1) assms(2) tA Ta(1) m1 m2 m3
    by (simp add: LinearVRM_Jvec_def the_matrix_def)
  have jtv: "fst (LinearVRM_Jtvec s m w) = Inr y3"
    using assms(1) assms(3) aT Ta(1) x1 x2 x3 ly1
    by (simp add: LinearVRM_Jtvec_def the_matrix_def y1_def [symmetric] y2_def [symmetric]
        y3_def [symmetric] vecmat_transpose)
  have e1: "dot w z3 = dot y1 z2"
    unfolding z3_def y1_def using adjoint_core [OF Ta(2) lz2 wTa] by simp
  have e2: "dot y1 z2 = dot y2 z1"
    unfolding z2_def y2_def using adjoint_core [OF assms(5) lz1 ly1] by simp
  have e3: "dot y2 z1 = dot y3 v"
    unfolding z1_def y3_def using adjoint_core [OF assms(4) assms(7) ly2] by simp
  have "dot w z3 = dot v y3"
    using e1 e2 e3 by (simp add: dot_commute)
  moreover have "length z3 = length w" by (simp add: z3_def wTa nrows_def)
  moreover have "length y3 = length v" by (simp add: y3_def assms(7))
  ultimately show ?thesis using jv jtv by blast
qed

theorem adjoint_consistency_witness:
  "survey ex_linear = Some ex_survey \<and>
   LinearVRM_A ex_linear = (Inr (Some ex_A), snd (LinearVRM_A ex_linear)) \<and>
   LinearVRM_T ex_linear = (Inr (Some ex_T), snd (LinearVRM_T ex_linear)) \<and>
   wf_matrix (xiMap_P (xiMap ex_linear)) \<and> wf_matrix ex_A \<and> wf_matrix ex_T \<and>
   length [2::real] = ncols (xiMap_P (xiMap ex_linear)) \<and>
   nrows (xiMap_P (xiMap ex_linear)) = ncols ex_A \<and> nrows ex_A = ncols ex_T \<and>
   length (tActive ex_survey) = nrows ex_T \<and>
   length [5::real] = length (filter id (tActive ex_survey)) \<and>
   (\<exists>jv jtv. fst (LinearVRM_Jvec ex_linear [0] [2]) = Inr jv \<and>
      fst (LinearVRM_Jtvec ex_linear [0] [5]) = Inr jtv \<and>
      length jv = 1 \<and> length jtv = 1 \<and> dot [5] jv = dot [2] jtv)"
proof -
  have p: "survey ex_linear = Some ex_survey" by (simp add: ex_linear_def)
  have a: "LinearVRM_A ex_linear = (Inr (Some ex_A), snd (LinearVRM_A ex_linear))"
    by (simp add: ex_linear_A)
  have t: "LinearVRM_T ex_linear = (Inr (Some ex_T), snd (LinearVRM_T ex_linear))"
    by (simp add: ex_linear_T)
  have w: "wf_matrix (xiMap_P (xiMap ex_linear))" "wf_matrix ex_A" "wf_matrix ex_T"
    by (simp_all add: wf_matrix_def ex_linear_def ex_xiMap_def ex_A_def ex_T_def)
  have d: "length [2::real] = ncols (xiMap_P (xiMap ex_linear))"
      "nrows (xiMap_P (xiMap ex_linear)) = ncols ex_A" "nrows ex_A = ncols ex_T"
      "length (tActive ex_survey) = nrows ex_T"
      "length [5::real] = length (filter id (tActive ex_survey))"
    by (simp_all add: ex_linear_def ex_xiMap_def ex_A_def ex_T_def nrows_def ex_survey_def)
  from adjoint_consistency [OF p a t w d, of "[0]"]
  show ?thesis using p a t w d by simp
qed

section \<open>Properties of the log-uniform forward operation\<close>

lemma LogUniformVRM_fields_loop_cached:
  assumes "AisSet s" and "A_loguniform s = Some As"
  shows "LogUniformVRM_fields_loop s steps =
     (sequenceE (map (\<lambda>(qq, eta).
         if qq < length As
         then (case matmul (As ! qq) eta of Inl e \<Rightarrow> Inl e | Inr M \<Rightarrow> Inr (concat (rows M)))
         else Inl (IndexError ''list index out of range'')) steps), s)"
  using assms
proof (induction steps)
  case Nil
  then show ?case by simp
next
  case (Cons a steps)
  obtain qq eta where a: "a = (qq, eta)" by (cases a)
  from Cons show ?case
    by (simp add: a LogUniformVRM_A_def the_matrix_def split: sum.splits)
qed

lemma ex_loguniform2_A:
  "\<exists>B s1. LogUniformVRM_A ex_loguniform2 = (Inr (Some [B]), s1) \<and> AisSet s1 \<and>
     A_loguniform s1 = Some [B] \<and> survey s1 = Some ex_survey2 \<and> nrows B = 2 \<and> ncols B = 1"
  by (simp add: LogUniformVRM_A_def ex_loguniform2_def ex_loguniform_def print_def getAMatricies_def
      ex_mesh_def select_def getAblock_def getGeometryMatrix_def ex_survey2_def ex_src_def ex_rx_def
      ex_rx2_def getGeometryRow_def corner_differences_def np_min_def x3_def y3_def z3_def nudge_def
      Let_def getH0matrix_def diags_def vstack_def matmul_def nrows_def col_def dot_def)

text \<open>
  Claim C5 where a source has more receivers than the survey has sources. \<open>fields\<close>
  reads \<open>self.A[qq]\<close>, indexing the list of per-source blocks with the index \<open>qq\<close> of
  the receiver in its source, where the claim has the block of the receiver's source,
  \<open>self.A[pp]\<close>. With one source and two receivers the second receiver asks for the
  block of index 1 of a list with the single block of index 0: IndexError.
\<close>

theorem fields_indexes_blocks_by_receiver:
  "fst (LogUniformVRM_fields ex_loguniform2 [1] [1] [1] [1]) = Inl (IndexError ''list index out of range'')"
proof -
  from ex_loguniform2_A obtain B s1 where
    A: "LogUniformVRM_A ex_loguniform2 = (Inr (Some [B]), s1)" and s1: "AisSet s1"
      "A_loguniform s1 = Some [B]" and B: "nrows B = 2" "ncols B = 1"
    by blast
  have sv: "survey ex_loguniform2 = Some ex_survey2"
    by (simp add: ex_loguniform2_def)
  have steps: "LogUniformVRM_steps ex_survey2 [1] [1] [1] [1] =
      [(0, \<lparr>ncols = 2, rows = [[1, 1/2]]\<rparr>), (1, \<lparr>ncols = 2, rows = [[1, 1/2]]\<rparr>)]"
    by (simp add: LogUniformVRM_steps_def ex_survey2_def ex_src_def ex_rx_def ex_rx2_def ex_wave_def
        upt_rec)
  have x: "xiMap_apply (xiMap ex_loguniform2) [1] = [1]"
    by (simp add: ex_loguniform2_def ex_loguniform_def ex_xiMap_def)
  have m: "\<exists>M. matmul B \<lparr>ncols = 2, rows = [[1, 1/2]]\<rparr> = Inr M"
    using B by (simp add: matmul_def nrows_def)
  then obtain M where M: "matmul B \<lparr>ncols = 2, rows = [[1, 1/2]]\<rparr> = Inr M" by blast
  show ?thesis
    using A M LogUniformVRM_fields_loop_cached [OF s1, of "[(1, \<lparr>ncols = 2, rows = [[1, 1/2]]\<rparr>)]"]
    by (simp add: LogUniformVRM_fields_def sv x steps the_matrix_def)
qed

section \<open>Properties of the refinement\<close>

lemma sub_offsets_alt:
  "sub_offsets n =
     concat (map (\<lambda>k. concat (map (\<lambda>j. map (\<lambda>i.
        (real (Suc j) - 1 / 2, real (Suc i) - 1 / 2, real (Suc k) - 1 / 2)) [0..<n]) [0..<n])) [0..<n])"
  unfolding sub_offsets_def Let_def
  by (intro arg_cong [where f = concat] map_cong refl) simp

lemma length_concat_const:
  "(\<And>x. x \<in> set xs \<Longrightarrow> length (f x) = q) \<Longrightarrow> length (concat (map f xs)) = length xs * q"
  by (induction xs) simp_all

lemma length_sub_offsets: "length (sub_offsets n) = n ^ 3"
  unfolding sub_offsets_alt
  by (simp add: length_concat_const power3_eq_cube)


lemma children_of_offsets:
  "map (\<lambda>k. ((x3 c - x3 h / 2 + x3 h / real n * x3 k,
               y3 c - y3 h / 2 + y3 h / real n * y3 k,
               z3 c - z3 h / 2 + z3 h / real n * z3 k),
              (x3 h / real n, y3 h / real n, z3 h / real n))) (sub_offsets n)
   = children_of n c h"
proof -
  have u: "[1..<n + 1] = map Suc [0..<n]"
    by (simp add: map_Suc_upt)
  show ?thesis
    unfolding sub_offsets_alt children_of_def u
    by (simp add: map_concat comp_def x3_def y3_def z3_def mult.commute)
qed


lemma map2_replicate_zip:
  "map2 f (replicate (length ys) a) (zip (replicate (length ys) b) ys) = map (\<lambda>k. f a (b, k)) ys"
  by (induction ys) simp_all

lemma subcell_widths:
  assumes "length csel = length hsel"
  shows "kron_ones (map (\<lambda>h. (x3 h / real n, y3 h / real n, z3 h / real n)) hsel) (n ^ 3) =
         map snd (concat (map (\<lambda>(c, h). children_of n c h) (zip csel hsel)))"
  using assms
proof (induction csel hsel rule: list_induct2)
  case Nil
  then show ?case by (simp add: kron_ones_def)
next
  case (Cons c cs h hs)
  have "map snd (children_of n c h) = replicate (n ^ 3) (x3 h / real n, y3 h / real n, z3 h / real n)"
    unfolding children_of_offsets [symmetric]
    by (simp add: comp_def map_replicate_const length_sub_offsets)
  with Cons show ?case by (simp add: kron_ones_def)
qed

lemma subcell_centres:
  assumes "length csel = length hsel"
  shows "map2 (\<lambda>c (h, k). (x3 c + x3 h * x3 k, y3 c + y3 h * y3 k, z3 c + z3 h * z3 k))
           (kron_ones (map2 (\<lambda>c h. (x3 c - x3 h / 2, y3 c - y3 h / 2, z3 c - z3 h / 2)) csel hsel) (n ^ 3))
           (zip (kron_ones (map (\<lambda>h. (x3 h / real n, y3 h / real n, z3 h / real n)) hsel) (n ^ 3))
                (ones_kron (length (map2 (\<lambda>c h. (x3 c - x3 h / 2, y3 c - y3 h / 2, z3 c - z3 h / 2)) csel hsel))
                   (sub_offsets n))) =
         map fst (concat (map (\<lambda>(c, h). children_of n c h) (zip csel hsel)))"
  using assms
proof (induction csel hsel rule: list_induct2)
  case Nil
  then show ?case by (simp add: kron_ones_def ones_kron_def)
next
  case (Cons c cs h hs)
  let ?q = "length (sub_offsets n)"
  have q: "n ^ 3 = ?q" by (simp add: length_sub_offsets)
  have hd: "map2 (\<lambda>c (h, k). (x3 c + x3 h * x3 k, y3 c + y3 h * y3 k, z3 c + z3 h * z3 k))
              (replicate ?q (x3 c - x3 h / 2, y3 c - y3 h / 2, z3 c - z3 h / 2))
              (zip (replicate ?q (x3 h / real n, y3 h / real n, z3 h / real n)) (sub_offsets n))
            = map fst (children_of n c h)"
    unfolding children_of_offsets [symmetric] map2_replicate_zip
    by (simp add: comp_def x3_def y3_def z3_def)
  from Cons.IH hd show ?case
    unfolding q by (simp add: kron_ones_def ones_kron_def)
qed

lemma flagged_cells_select:
  assumes "length refFlag = length xyzc" and "length xyzc = length xyzh"
  shows "zip (map snd (filter fst (zip (map (\<lambda>f. f = int qq) refFlag) xyzc)))
             (map snd (filter fst (zip (map (\<lambda>f. f = int qq) refFlag) xyzh)))
         = flagged_cells xyzc xyzh refFlag qq \<and>
         length (map snd (filter fst (zip (map (\<lambda>f. f = int qq) refFlag) xyzc))) =
         length (map snd (filter fst (zip (map (\<lambda>f. f = int qq) refFlag) xyzh)))"
  using assms unfolding flagged_cells_def
  by (induction refFlag xyzc xyzh rule: list_induct3) simp_all

lemma dot_append:
  "length x1 = length y1 \<Longrightarrow> dot (x1 @ x2) (y1 @ y2) = dot x1 y1 + dot x2 y2"
  by (simp add: dot_def)

lemma dot_replicate: "dot xs (replicate (length xs) c) = c * sum_list xs"
  by (induction xs) (simp_all add: dot_def algebra_simps)

lemma dot_block_constant:
  "length r = length js * q \<Longrightarrow>
     dot r (concat (map (\<lambda>i. replicate q (d i)) js)) =
     (\<Sum>idx<length js. d (js ! idx) * sum_list (take q (drop (idx * q) r)))"
proof (induction js arbitrary: r)
  case Nil
  then show ?case by (simp add: dot_def)
next
  case (Cons a js)
  have "q \<le> length r" using Cons.prems by simp
  then have mn: "min (length r) q = q" by simp
  then have lt: "length (take q r) = q" by simp
  have ld: "length (drop q r) = length js * q" using Cons.prems by simp
  have "dot r (concat (map (\<lambda>i. replicate q (d i)) (a # js))) =
        dot (take q r @ drop q r) (replicate q (d a) @ concat (map (\<lambda>i. replicate q (d i)) js))"
    by simp
  also have "\<dots> = dot (take q r) (replicate q (d a)) + dot (drop q r) (concat (map (\<lambda>i. replicate q (d i)) js))"
    by (rule dot_append) (simp add: mn)
  also have "dot (take q r) (replicate q (d a)) = d a * sum_list (take q r)"
    using dot_replicate [of "take q r" "d a"] by (simp add: mn)
  also have "dot (drop q r) (concat (map (\<lambda>i. replicate q (d i)) js)) =
        (\<Sum>idx<length js. d (js ! idx) * sum_list (take q (drop (idx * q) (drop q r))))"
    by (rule Cons.IH [OF ld])
  finally have step: "dot r (concat (map (\<lambda>i. replicate q (d i)) (a # js))) =
      d a * sum_list (take q r) +
      (\<Sum>idx<length js. d (js ! idx) * sum_list (take q (drop (idx * q) (drop q r))))" .
  have sh: "(\<Sum>idx<length (a # js). d ((a # js) ! idx) * sum_list (take q (drop (idx * q) r))) =
      d a * sum_list (take q r) +
      (\<Sum>idx<length js. d (js ! idx) * sum_list (take q (drop (idx * q) (drop q r))))"
    by (simp add: sum.lessThan_Suc_shift add.commute [of q] del: sum.lessThan_Suc)
  from step sh show ?case by simp
qed

lemma col_collapse:
  assumes "p < m"
  shows "col (kron (diags (replicate m 1)) (ones_col q)) p =
         concat (map (\<lambda>i. replicate q (if i = p then 1 else 0)) [0..<m])"
proof -
  have r: "rows (kron (diags (replicate m 1)) (ones_col q)) =
           concat (map (\<lambda>i. replicate q (map (\<lambda>j. if i = j then 1 else 0) [0..<m])) [0..<m])"
  proof -
    have "rows (kron (diags (replicate m 1)) (ones_col q)) =
           concat (map (\<lambda>i. replicate q (map (\<lambda>j. if i = j then replicate m 1 ! i else 0) [0..<m])) [0..<m])"
      unfolding kron_def diags_def ones_col_def
      by (simp add: map_replicate_const comp_def)
    also have "\<dots> = concat (map (\<lambda>i. replicate q (map (\<lambda>j. if i = j then 1 else 0) [0..<m])) [0..<m])"
      by (intro arg_cong [where f = concat] map_cong refl) simp
    finally show ?thesis .
  qed
  show ?thesis
    unfolding col_def r using assms
    by (simp add: map_concat comp_def cong: map_cong)
qed

lemma nrows_collapse: "nrows (kron (diags (replicate m 1)) (ones_col q)) = m * q"
  unfolding nrows_def kron_def diags_def ones_col_def
  by (simp add: length_concat_const)

lemma ncols_collapse: "ncols (kron (diags (replicate m 1)) (ones_col q)) = m"
  by (simp add: kron_def diags_def ones_col_def)

lemma collapse:
  assumes "wf_matrix M" and "ncols M = m * q"
  shows "matmul M (kron (diags (replicate m 1)) (ones_col q)) =
         Inr \<lparr>ncols = m, rows = map (\<lambda>r. map (\<lambda>p. sum_list (take q (drop (p * q) r))) [0..<m]) (rows M)\<rparr>"
proof -
  have e: "dot r (col (kron (diags (replicate m 1)) (ones_col q)) p) = sum_list (take q (drop (p * q) r))"
    if "r \<in> set (rows M)" "p < m" for r p
  proof -
    have l: "length r = length [0..<m] * q"
      using that(1) assms by (simp add: wf_matrix_def)
    have "dot r (col (kron (diags (replicate m 1)) (ones_col q)) p) =
          (\<Sum>idx<m. (if idx = p then 1 else 0) * sum_list (take q (drop (idx * q) r)))"
      unfolding col_collapse [OF that(2)]
      using dot_block_constant [OF l, of "\<lambda>i. if i = p then 1 else 0"] by simp
    also have "\<dots> = (\<Sum>idx<m. if idx = p then sum_list (take q (drop (idx * q) r)) else 0)"
      by (intro sum.cong refl) simp
    also have "\<dots> = sum_list (take q (drop (p * q) r))"
      using that(2) by (simp add: sum.delta)
    finally show ?thesis .
  qed
  show ?thesis
    using assms(2) e
    by (simp add: matmul_def nrows_collapse ncols_collapse cong: map_cong)
qed

lemma collapse_shape:
  "matmul M (kron (diags (replicate m 1)) (ones_col q)) = Inr B \<Longrightarrow> ncols M = m * q"
  by (simp add: matmul_def nrows_collapse split: if_splits)

lemma matmul_shape:
  "matmul A B = Inr M \<Longrightarrow> wf_matrix M \<and> ncols M = ncols B \<and> nrows M = nrows A \<and> ncols A = nrows B"
  by (auto simp: matmul_def wf_matrix_def nrows_def split: if_splits)

lemma getSubsetAcolumns_alt:
  assumes "length refFlag = length xyzc" and "length xyzc = length xyzh"
  shows "getSubsetAcolumns xyzc xyzh srcObj qq refFlag =
         (case children_sensitivity srcObj xyzc xyzh refFlag qq of
            Inl e \<Rightarrow> Inl e
          | Inr S \<Rightarrow> matmul S (kron (diags (replicate (length (flagged_cells xyzc xyzh refFlag qq)) 1))
                                  (ones_col ((2 ^ qq) ^ 3))))"
proof -
  let ?msk = "map (\<lambda>f. f = int qq) refFlag"
  define hsel where "hsel = map snd (filter fst (zip ?msk xyzh))"
  define csel where "csel = map snd (filter fst (zip ?msk xyzc))"
  have h: "select ?msk xyzh = Inr hsel" and c: "select ?msk xyzc = Inr csel"
    using assms by (simp_all add: select_def hsel_def csel_def)
  from flagged_cells_select [OF assms, of qq]
  have z: "zip csel hsel = flagged_cells xyzc xyzh refFlag qq" and l: "length csel = length hsel"
    by (simp_all add: hsel_def csel_def)
  have m: "length (map2 (\<lambda>c h. (x3 c - x3 h / 2, y3 c - y3 h / 2, z3 c - z3 h / 2)) csel hsel)
           = length (flagged_cells xyzc xyzh refFlag qq)"
    using l z [symmetric] by simp
  show ?thesis
    apply (simp only: getSubsetAcolumns_def Let_def h c sum.case)
    apply (simp only: subcell_centres [OF l])
    apply (simp only: subcell_widths [OF l])
    apply (simp only: m)
    apply (simp only: z children_sensitivity_def cell_sensitivity_def)
    apply (simp split: sum.splits)
    done
qed

lemma getSubsetAcolumns_collapse:
  assumes "getSubsetAcolumns xyzc xyzh srcObj qq refFlag = Inr Acols"
    and "length xyzc = length xyzh"
  shows "length refFlag = length xyzc \<and>
         (\<exists>S. children_sensitivity srcObj xyzc xyzh refFlag qq = Inr S \<and>
            Acols = \<lparr>ncols = length (flagged_cells xyzc xyzh refFlag qq),
                     rows = map (\<lambda>r. map (\<lambda>p. sum_list (take ((2 ^ qq) ^ 3) (drop (p * (2 ^ qq) ^ 3) r)))
                                        [0..<length (flagged_cells xyzc xyzh refFlag qq)]) (rows S)\<rparr>)"
proof -
  from assms have len: "length refFlag = length xyzc"
    by (auto simp: getSubsetAcolumns_def Let_def select_def split: sum.splits if_splits)
  define K where "K = kron (diags (replicate (length (flagged_cells xyzc xyzh refFlag qq)) 1)) (ones_col ((2 ^ qq) ^ 3))"
  from assms(1) obtain S where S: "children_sensitivity srcObj xyzc xyzh refFlag qq = Inr S"
    and A: "matmul S K = Inr Acols"
    unfolding getSubsetAcolumns_alt [OF len assms(2)] K_def by (auto split: sum.splits)
  from S have wf: "wf_matrix S"
    by (auto simp: children_sensitivity_def cell_sensitivity_def split: sum.splits dest: matmul_shape)
  from A have nc: "ncols S = length (flagged_cells xyzc xyzh refFlag qq) * (2 ^ qq) ^ 3"
    unfolding K_def by (rule collapse_shape)
  from collapse [OF wf nc] A have "Acols = \<lparr>ncols = length (flagged_cells xyzc xyzh refFlag qq),
       rows = map (\<lambda>r. map (\<lambda>p. sum_list (take ((2 ^ qq) ^ 3) (drop (p * (2 ^ qq) ^ 3) r)))
                  [0..<length (flagged_cells xyzc xyzh refFlag qq)]) (rows S)\<rparr>"
    by (simp add: K_def)
  with S len show ?thesis by simp
qed

lemma length_scatter: "length (scatter ra msk rb) = length ra"
  by (induction ra msk rb rule: scatter.induct) simp_all

lemma nth_scatter:
  "length msk = length ra \<Longrightarrow> length rb = length (filter id msk) \<Longrightarrow> j < length ra \<Longrightarrow>
     scatter ra msk rb ! j = (if msk ! j then rb ! length (filter id (take j msk)) else ra ! j)"
proof (induction ra msk rb arbitrary: j rule: scatter.induct)
  case (1 ms vs)
  then show ?case by simp
next
  case (2 a as vs)
  then show ?case by simp
next
  case (3 a as ms vs)
  then show ?case by (cases j) (simp_all add: id_def)
next
  case (4 a as ms)
  then show ?case by simp
next
  case (5 a as ms v vs)
  then show ?case by (cases j) (simp_all add: id_def)
qed

lemma assign_cols_rows:
  assumes "assign_cols A msk B = Inr A'"
  shows "ncols A' = ncols A \<and> nrows A' = nrows A \<and> length msk = ncols A \<and> nrows B = nrows A \<and>
         ncols B = length (filter id msk) \<and>
         (\<forall>k<nrows A. rows A' ! k = scatter (rows A ! k) msk (rows B ! k))"
  using assms
  by (auto simp: assign_cols_def nrows_def split: if_splits)

lemma assign_cols_wf:
  assumes "assign_cols A msk B = Inr A'" and "wf_matrix A"
  shows "wf_matrix A'"
  using assms
  by (auto simp: assign_cols_def wf_matrix_def length_scatter set_zip split: if_splits)

lemma length_flagged_cells:
  "length refFlag = length xyzc \<Longrightarrow> length xyzc = length xyzh \<Longrightarrow>
     length (flagged_cells xyzc xyzh refFlag qq) = length (filter id (map (\<lambda>f. f = int qq) refFlag))"
  unfolding flagged_cells_def
  by (induction refFlag xyzc xyzh rule: list_induct3) simp_all

lemma count_before_less:
  "j < length msk \<Longrightarrow> msk ! j \<Longrightarrow> length (filter id (take j msk)) < length (filter id msk)"
proof (induction msk arbitrary: j)
  case Nil
  then show ?case by simp
next
  case (Cons b bs)
  show ?case
  proof (cases j)
    case 0
    with Cons.prems show ?thesis by simp
  next
    case (Suc i)
    with Cons.prems have "i < length bs" "bs ! i" by simp_all
    from Cons.IH [OF this] show ?thesis by (simp add: Suc)
  qed
qed

lemma count_before_map:
  "length (filter id (take j (map P xs))) = length (filter P (take j xs))"
  by (simp add: take_map filter_map comp_def)

lemma refine_loop_entries:
  assumes "refine_loop xyzc xyzh srcObj refFlag A qs = Inr A'"
    and "length xyzc = length xyzh" and "ncols A = length xyzc" and "wf_matrix A"
    and "distinct qs"
  shows "nrows A' = nrows A \<and> ncols A' = ncols A \<and> wf_matrix A' \<and>
         (\<forall>k<nrows A. \<forall>j<length xyzc.
            (\<forall>qq\<in>set qs. refFlag ! j = int qq \<longrightarrow>
               (\<exists>S. children_sensitivity srcObj xyzc xyzh refFlag qq = Inr S \<and> nrows S = nrows A \<and>
                    rows A' ! k ! j =
                      sum_list (take ((2 ^ qq) ^ 3)
                        (drop (length (filter (\<lambda>f. f = int qq) (take j refFlag)) * (2 ^ qq) ^ 3)
                           (rows S ! k))))) \<and>
            ((\<forall>qq\<in>set qs. refFlag ! j \<noteq> int qq) \<longrightarrow> rows A' ! k ! j = rows A ! k ! j))"
  using assms
proof (induction qs arbitrary: A)
  case Nil
  then show ?case by simp
next
  case (Cons qq qs)
  let ?msk = "map (\<lambda>f. f = int qq) refFlag"
  let ?m = "length (flagged_cells xyzc xyzh refFlag qq)"
  let ?q = "((2::nat) ^ qq) ^ 3"
  from Cons.prems(1) obtain Acols A1 where
    g: "getSubsetAcolumns xyzc xyzh srcObj qq refFlag = Inr Acols"
    and a: "assign_cols A ?msk Acols = Inr A1"
    and r: "refine_loop xyzc xyzh srcObj refFlag A1 qs = Inr A'"
    by (auto split: sum.splits)
  from getSubsetAcolumns_collapse [OF g Cons.prems(2)] obtain S where
    len: "length refFlag = length xyzc"
    and S: "children_sensitivity srcObj xyzc xyzh refFlag qq = Inr S"
    and Ac: "Acols = \<lparr>ncols = ?m,
               rows = map (\<lambda>r. map (\<lambda>p. sum_list (take ?q (drop (p * ?q) r))) [0..<?m]) (rows S)\<rparr>"
    by blast
  from assign_cols_rows [OF a] have
    sh: "ncols A1 = ncols A" "nrows A1 = nrows A" "nrows Acols = nrows A"
    and rowsA1: "\<And>k. k < nrows A \<Longrightarrow> rows A1 ! k = scatter (rows A ! k) ?msk (rows Acols ! k)"
    by simp_all
  have nS: "nrows S = nrows A" using Ac sh(3) by (simp add: nrows_def)
  have m: "?m = length (filter id ?msk)"
    by (rule length_flagged_cells [OF len Cons.prems(2)])
  have wf1: "wf_matrix A1" by (rule assign_cols_wf [OF a Cons.prems(4)])
  have d: "distinct qs" "qq \<notin> set qs" using Cons.prems(5) by simp_all
  from Cons.IH [OF r Cons.prems(2) _ wf1 d(1)] sh Cons.prems(3)
  have IH: "nrows A' = nrows A" "ncols A' = ncols A" "wf_matrix A'"
    "\<And>k j q'. k < nrows A \<Longrightarrow> j < length xyzc \<Longrightarrow> q' \<in> set qs \<Longrightarrow> refFlag ! j = int q' \<Longrightarrow>
       \<exists>S. children_sensitivity srcObj xyzc xyzh refFlag q' = Inr S \<and> nrows S = nrows A \<and>
            rows A' ! k ! j =
              sum_list (take ((2 ^ q') ^ 3)
                (drop (length (filter (\<lambda>f. f = int q') (take j refFlag)) * (2 ^ q') ^ 3) (rows S ! k)))"
    "\<And>k j. k < nrows A \<Longrightarrow> j < length xyzc \<Longrightarrow> (\<forall>q'\<in>set qs. refFlag ! j \<noteq> int q') \<Longrightarrow>
       rows A' ! k ! j = rows A1 ! k ! j"
    by simp_all
  have entry: "rows A1 ! k ! j =
      (if refFlag ! j = int qq
       then sum_list (take ?q (drop (length (filter (\<lambda>f. f = int qq) (take j refFlag)) * ?q) (rows S ! k)))
       else rows A ! k ! j)"
    if k: "k < nrows A" and j: "j < length xyzc" for k j
  proof -
    have lr: "length (rows A ! k) = length ?msk"
      using Cons.prems(3,4) k len by (simp add: wf_matrix_def nrows_def)
    have kS: "k < length (rows S)" using k nS by (simp add: nrows_def)
    have rk: "rows Acols ! k = map (\<lambda>p. sum_list (take ?q (drop (p * ?q) (rows S ! k)))) [0..<?m]"
      using kS by (simp add: Ac)
    have lb: "length (rows Acols ! k) = length (filter id ?msk)"
      by (simp add: rk m)
    have jl: "j < length (rows A ! k)" using lr j len by simp
    have sc: "rows A1 ! k ! j =
        (if ?msk ! j then rows Acols ! k ! length (filter id (take j ?msk)) else rows A ! k ! j)"
      unfolding rowsA1 [OF k] by (rule nth_scatter [OF lr [symmetric] lb jl])
    show ?thesis
    proof (cases "refFlag ! j = int qq")
      case True
      have mj: "?msk ! j" using True j len by simp
      have "length (filter id (take j ?msk)) < length (filter id ?msk)"
        by (rule count_before_less) (use mj j len in simp_all)
      then have p: "length (filter (\<lambda>f. f = int qq) (take j refFlag)) < ?m"
        by (simp add: m count_before_map)
      show ?thesis
        using sc mj True p by (simp add: rk count_before_map)
    next
      case False
      then have "\<not> ?msk ! j" using j len by simp
      with sc False show ?thesis by simp
    qed
  qed
  show ?case
  proof (intro conjI allI impI ballI)
    show "nrows A' = nrows A" by (rule IH(1))
    show "ncols A' = ncols A" by (rule IH(2))
    show "wf_matrix A'" by (rule IH(3))
  next
    fix k j q'
    assume k: "k < nrows A" and j: "j < length xyzc" and q': "q' \<in> set (qq # qs)"
      and f: "refFlag ! j = int q'"
    show "\<exists>S. children_sensitivity srcObj xyzc xyzh refFlag q' = Inr S \<and> nrows S = nrows A \<and>
            rows A' ! k ! j =
              sum_list (take ((2 ^ q') ^ 3)
                (drop (length (filter (\<lambda>f. f = int q') (take j refFlag)) * (2 ^ q') ^ 3) (rows S ! k)))"
    proof (cases "q' \<in> set qs")
      case True
      from IH(4) [OF k j True f] show ?thesis .
    next
      case False
      with q' have e: "q' = qq" by simp
      have "\<forall>q''\<in>set qs. refFlag ! j \<noteq> int q''"
        using f e d(2) by auto
      from IH(5) [OF k j this] entry [OF k j] f e S nS show ?thesis by simp
    qed
  next
    fix k j
    assume k: "k < nrows A" and j: "j < length xyzc"
      and n: "\<forall>q'\<in>set (qq # qs). refFlag ! j \<noteq> int q'"
    then have "\<forall>q'\<in>set qs. refFlag ! j \<noteq> int q'" "refFlag ! j \<noteq> int qq" by simp_all
    with IH(5) [OF k j] entry [OF k j] show "rows A' ! k ! j = rows A ! k ! j" by simp
  qed
qed

lemma sequenceE_map:
  "sequenceE (map f xs) = Inr ys \<Longrightarrow> length ys = length xs \<and> (\<forall>i<length xs. f (xs ! i) = Inr (ys ! i))"
proof (induction xs arbitrary: ys)
  case Nil
  then show ?case by simp
next
  case (Cons x xs)
  from Cons.prems obtain v vs where v: "f x = Inr v" and vs: "sequenceE (map f xs) = Inr vs"
    and ys: "ys = v # vs"
    by (auto split: sum.splits)
  from Cons.IH [OF vs] show ?case
    by (auto simp: ys v nth_Cons split: nat.splits)
qed

lemma getGeometryMatrix_shape:
  "getGeometryMatrix xyzc xyzh srcObj = Inr G \<Longrightarrow> length xyzc = length xyzh \<and> ncols G = 3 * length xyzc"
  by (auto simp: getGeometryMatrix_def split: if_splits sum.splits)

lemma getH0matrix_shape:
  "getH0matrix xyz srcObj = Inr H0 \<Longrightarrow>
     ncols H0 = length (getH0 srcObj xyz) \<and> nrows H0 = 3 * length (getH0 srcObj xyz)"
  by (auto simp: getH0matrix_def vstack_def diags_def nrows_def Let_def split: if_splits)

lemma getAblock_level0:
  assumes "getAblock xyzc xyzh rfact radii srcObj = Inr A"
  shows "length xyzc = length xyzh \<and>
         (\<exists>A0. cell_sensitivity srcObj (zip xyzc xyzh) = Inr A0 \<and> wf_matrix A0 \<and> ncols A0 = length xyzc \<and>
            (if rfact > 0
             then refine_loop xyzc xyzh srcObj (getRefineFlags srcObj xyzc rfact radii) A0
                    [1..<nat rfact + 1] = Inr A
             else A = A0))"
proof -
  from assms obtain G H0 A0 where
    G: "getGeometryMatrix xyzc xyzh srcObj = Inr G" and H: "getH0matrix xyzc srcObj = Inr H0"
    and M: "matmul G H0 = Inr A0"
    and R: "(if rfact > 0
             then refine_loop xyzc xyzh srcObj (getRefineFlags srcObj xyzc rfact radii) A0
                    [1..<nat rfact + 1]
             else Inr A0) = Inr A"
    by (auto simp: getAblock_def split: sum.splits)
  from getGeometryMatrix_shape [OF G] have l: "length xyzc = length xyzh" and nG: "ncols G = 3 * length xyzc"
    by simp_all
  from matmul_shape [OF M] getH0matrix_shape [OF H] nG
  have wf: "wf_matrix A0" and nc: "ncols A0 = length xyzc"
    by simp_all
  have c: "cell_sensitivity srcObj (zip xyzc xyzh) = Inr A0"
    using l G H M by (simp add: cell_sensitivity_def)
  from R have "if rfact > 0
             then refine_loop xyzc xyzh srcObj (getRefineFlags srcObj xyzc rfact radii) A0
                    [1..<nat rfact + 1] = Inr A
             else A = A0"
    by (simp split: if_splits)
  with l c wf nc show ?thesis by blast
qed


text \<open>
  When the build returns. The inducing field sampler returns one field vector per
  point, there is at least one active cell, the flags cover the cells and every level
  in \<open>1..refFact\<close> has a flagged cell: then every block is returned. With a level
  that has no flagged cell and a source with a receiver location, the kernel is called
  on an empty array of sub-cells and the build raises ValueError.
\<close>


lemma sequenceE_ok:
  "(\<forall>x\<in>set xs. \<exists>v. x = Inr v) \<Longrightarrow> \<exists>vs. sequenceE xs = Inr vs \<and> length vs = length xs"
proof (induction xs)
  case Nil
  then show ?case by simp
next
  case (Cons x xs)
  then obtain v vs where "x = Inr v" "sequenceE xs = Inr vs" "length vs = length xs"
    by auto
  then show ?case by simp
qed


lemma length_concat_map_map:
  "length (concat (map (\<lambda>x. map (f x) (g x)) xs)) = length (concat (map g xs))"
  by (induction xs) simp_all


lemma getGeometryMatrix_ok:
  assumes "length xyzc = length xyzh" and "xyzh \<noteq> []"
  shows "\<exists>G. getGeometryMatrix xyzc xyzh srcObj = Inr G \<and> ncols G = 3 * length xyzc \<and>
           nrows G = nRx srcObj"
proof -
  let ?xs = "concat (map (\<lambda>rxObj. map (getGeometryRow xyzc xyzh (fieldComp rxObj)) (locs rxObj)) (rxList srcObj))"
  have ok: "\<exists>v. getGeometryRow xyzc xyzh d loc = Inr v" for d loc
    using getGeometryRow_ok [OF assms(2), of xyzc d loc] by blast
  have "\<forall>x\<in>set ?xs. \<exists>v. x = Inr v"
    using ok by auto
  from sequenceE_ok [OF this] obtain G where "sequenceE ?xs = Inr G" "length G = length ?xs"
    by blast
  then show ?thesis
    using assms(1) by (simp add: getGeometryMatrix_def nrows_def nRx_def length_concat_map_map)
qed


lemma getH0matrix_ok:
  "\<exists>H0. getH0matrix xyz srcObj = Inr H0 \<and> ncols H0 = length (getH0 srcObj xyz) \<and>
     nrows H0 = 3 * length (getH0 srcObj xyz)"
  by (simp add: getH0matrix_def vstack_def diags_def nrows_def Let_def)


lemma cell_sensitivity_ok:
  assumes "cells \<noteq> []" and "length (getH0 srcObj (map fst cells)) = length (map fst cells)"
  shows "\<exists>S. cell_sensitivity srcObj cells = Inr S \<and> nrows S = nRx srcObj \<and> ncols S = length cells"
proof -
  from getGeometryMatrix_ok [of "map fst cells" "map snd cells" srcObj] assms(1)
  obtain G where G: "getGeometryMatrix (map fst cells) (map snd cells) srcObj = Inr G"
    "ncols G = 3 * length cells" "nrows G = nRx srcObj"
    by auto
  from getH0matrix_ok [of "map fst cells" srcObj] assms(2)
  obtain H0 where H: "getH0matrix (map fst cells) srcObj = Inr H0" "ncols H0 = length cells"
    "nrows H0 = 3 * length cells"
    by auto
  show ?thesis
    using G H by (simp add: cell_sensitivity_def matmul_def nrows_def)
qed


lemma sequenceE_first_error:
  "xs \<noteq> [] \<Longrightarrow> \<forall>x\<in>set xs. x = Inl e \<Longrightarrow> sequenceE xs = Inl e"
  by (cases xs) simp_all

lemma getGeometryRow_empty:
  "getGeometryRow [] [] dComp loc =
     Inl (ValueError ''zero-size array to reduction operation minimum which has no identity'')"
  by (simp add: getGeometryRow_def corner_differences_empty)

lemma cell_sensitivity_empty:
  assumes "nRx srcObj \<noteq> 0"
  shows "cell_sensitivity srcObj [] =
           Inl (ValueError ''zero-size array to reduction operation minimum which has no identity'')"
proof -
  let ?xs = "concat (map (\<lambda>rxObj. map (getGeometryRow [] [] (fieldComp rxObj)) (locs rxObj)) (rxList srcObj))"
  have "length ?xs = nRx srcObj"
    by (simp add: nRx_def length_concat_map_map)
  with assms have "length ?xs \<noteq> 0" by simp
  then have ne: "?xs \<noteq> []" unfolding length_0_conv .
  have all: "\<forall>x\<in>set ?xs. x = Inl (ValueError ''zero-size array to reduction operation minimum which has no identity'')"
    unfolding getGeometryRow_empty by auto
  have "sequenceE ?xs = Inl (ValueError ''zero-size array to reduction operation minimum which has no identity'')"
    by (rule sequenceE_first_error [OF ne all])
  then show ?thesis
    unfolding cell_sensitivity_def getGeometryMatrix_def by simp
qed

lemma getSubsetAcolumns_empty_level:
  assumes "length refFlag = length xyzc" and "length xyzc = length xyzh"
    and "flagged_cells xyzc xyzh refFlag qq = []" and "nRx srcObj \<noteq> 0"
  shows "getSubsetAcolumns xyzc xyzh srcObj qq refFlag =
           Inl (ValueError ''zero-size array to reduction operation minimum which has no identity'')"
  unfolding getSubsetAcolumns_alt [OF assms(1,2)] children_sensitivity_def assms(3)
  by (simp add: cell_sensitivity_empty [OF assms(4)])











lemma getAblock_empty_level:
  assumes "length xyzc = length xyzh" and "xyzc \<noteq> []"
    and "\<And>xyz. length (getH0 srcObj xyz) = length xyz"
    and "rfact > 0" and "length (getRefineFlags srcObj xyzc rfact radii) = length xyzc"
    and "1 \<notin> set (getRefineFlags srcObj xyzc rfact radii)" and "nRx srcObj \<noteq> 0"
  shows "getAblock xyzc xyzh rfact radii srcObj =
           Inl (ValueError ''zero-size array to reduction operation minimum which has no identity'')"
proof -
  let ?flags = "getRefineFlags srcObj xyzc rfact radii"
  have ne: "zip xyzc xyzh \<noteq> []" using assms(1,2) by (cases xyzc; cases xyzh) simp_all
  from cell_sensitivity_ok [OF ne assms(3)] assms(1)
  obtain A0 where A0: "cell_sensitivity srcObj (zip xyzc xyzh) = Inr A0"
    by auto
  have e: "getAblock xyzc xyzh rfact radii srcObj =
      refine_loop xyzc xyzh srcObj ?flags A0 [1..<nat rfact + 1]"
    using A0 assms(1,4) by (auto simp: getAblock_def cell_sensitivity_def split: sum.splits)
  have "(1::nat) < nat rfact + 1" using assms(4) by simp
  then have u: "[1..<nat rfact + 1] = 1 # [Suc 1..<nat rfact + 1]"
    by (rule upt_conv_Cons)
  have "filter (\<lambda>f. f = int 1) ?flags = []"
    using assms(6) by (auto simp: filter_empty_conv)
  then have "length (filter id (map (\<lambda>f. f = int 1) ?flags)) = 0"
    by (simp add: filter_map comp_def)
  with length_flagged_cells [OF assms(5) assms(1), of 1]
  have "flagged_cells xyzc xyzh ?flags 1 = []" by simp
  from getSubsetAcolumns_empty_level [OF assms(5) assms(1) this assms(7)]
  show ?thesis unfolding e u by (simp del: upt_Suc)
qed



section \<open>Shapes of the built operators\<close>

text \<open>
  The operators built by the properties \<open>A\<close> and \<open>T\<close> on a problem without cached
  values are well formed, and \<open>A\<close> has one row per column of \<open>T\<close>: one for every
  receiver location of the survey.
\<close>

lemma sequenceE_length: "sequenceE xs = Inr vs \<Longrightarrow> length vs = length xs"
proof (induction xs arbitrary: vs)
  case Nil
  then show ?case by simp
next
  case (Cons x xs)
  then show ?case by (auto split: sum.splits)
qed

lemma getAblock_shape:
  assumes "getAblock xyzc xyzh rfact radii srcObj = Inr A"
  shows "wf_matrix A \<and> nrows A = nRx srcObj \<and> ncols A = length xyzc"
proof -
  from getAblock_level0 [OF assms] obtain A0 where l: "length xyzc = length xyzh"
    and A0: "cell_sensitivity srcObj (zip xyzc xyzh) = Inr A0" and wf: "wf_matrix A0"
    and nc: "ncols A0 = length xyzc"
    and R: "if rfact > 0
            then refine_loop xyzc xyzh srcObj (getRefineFlags srcObj xyzc rfact radii) A0
                   [1..<nat rfact + 1] = Inr A
            else A = A0"
    by blast
  from A0 l obtain G H0 where G: "getGeometryMatrix xyzc xyzh srcObj = Inr G"
    and M: "matmul G H0 = Inr A0"
    by (auto simp: cell_sensitivity_def split: sum.splits)
  from G have "nrows G = nRx srcObj"
    by (auto simp: getGeometryMatrix_def nrows_def nRx_def length_concat_map_map
        split: if_splits sum.splits dest: sequenceE_length)
  with matmul_shape [OF M] have nr: "nrows A0 = nRx srcObj" by simp
  show ?thesis
  proof (cases "rfact > 0")
    case False
    with R wf nc nr show ?thesis by simp
  next
    case True
    with R have r: "refine_loop xyzc xyzh srcObj (getRefineFlags srcObj xyzc rfact radii) A0
                   [1..<nat rfact + 1] = Inr A"
      by simp
    have d: "distinct [1..<nat rfact + 1]" by simp
    from refine_loop_entries [OF r l nc wf d] nc nr show ?thesis by simp
  qed
qed

lemma vstack_shape:
  assumes "vstack Ms = Inr M" and "\<forall>B\<in>set Ms. wf_matrix B"
  shows "wf_matrix M \<and> nrows M = sum_list (map nrows Ms) \<and> (\<forall>B\<in>set Ms. ncols B = ncols M)"
proof -
  from assms(1) obtain B Bs where Ms: "Ms = B # Bs" and a: "\<forall>C\<in>set Ms. ncols C = ncols B"
    and M: "M = \<lparr>ncols = ncols B, rows = concat (map rows Ms)\<rparr>"
    by (auto simp: vstack_def split: list.splits if_splits)
  have "nrows M = sum_list (map nrows Ms)"
    by (simp add: M nrows_def [abs_def] length_concat comp_def)
  moreover have "wf_matrix M"
    using assms(2) a by (auto simp: M wf_matrix_def)
  ultimately show ?thesis using a by (simp add: M)
qed

lemma block_rows_shape:
  "before + sum_list (map ncols Bs) = tot \<Longrightarrow> \<forall>B\<in>set Bs. wf_matrix B \<Longrightarrow>
     \<forall>r\<in>set (block_rows before tot Bs). length r = tot"
proof (induction Bs arbitrary: before)
  case Nil
  then show ?case by simp
next
  case (Cons B Bs)
  have "\<forall>r\<in>set (block_rows (before + ncols B) tot Bs). length r = tot"
    using Cons.prems by (intro Cons.IH) simp_all
  moreover have "\<forall>r\<in>set (rows B). length (replicate before 0 @ r @ replicate (tot - before - ncols B) (0::real)) = tot"
    using Cons.prems by (auto simp: wf_matrix_def)
  ultimately show ?case by auto
qed

lemma block_diag_shape:
  assumes "block_diag Ms = Inr M" and "\<forall>B\<in>set Ms. wf_matrix B"
  shows "wf_matrix M \<and> ncols M = sum_list (map ncols Ms)"
  using assms block_rows_shape [of 0 Ms "sum_list (map ncols Ms)"]
  by (auto simp: block_diag_def wf_matrix_def split: if_splits)

lemma getTblocks_shape:
  "(\<forall>B\<in>set (getTblocks sv). wf_matrix B) \<and>
   sum_list (map ncols (getTblocks sv)) = sum_list (map nRx (srcList sv))"
proof -
  have wf: "wf_matrix (kron (diags (replicate n 1)) (col_matrix eta))" for n eta
    by (auto simp: wf_matrix_def kron_def diags_def col_matrix_def length_concat_const)
  have nc: "ncols (kron (diags (replicate n 1)) (col_matrix eta)) = n" for n eta
    by (simp add: kron_def diags_def col_matrix_def)
  have inner: "sum_list (map ncols (map (\<lambda>rx. kron (diags (replicate (length (locs rx)) 1)) (f rx)) rxs)) =
        length (concat (map locs rxs))" if "\<And>rx. f rx = col_matrix (g rx)"
    for rxs :: "receiver list" and f g
    by (induction rxs) (simp_all add: that nc)
  have "sum_list (map ncols (concat (map (\<lambda>src.
          map (\<lambda>rx. kron (diags (replicate (length (locs rx)) 1))
                 (col_matrix (getCharDecay (waveform src) (fieldType rx) (rx_times rx))))
              (rxList src)) srcs))) = sum_list (map nRx srcs)" for srcs
  proof (induction srcs)
    case Nil
    then show ?case by simp
  next
    case (Cons src srcs)
    have "sum_list (map ncols (map (\<lambda>rx. kron (diags (replicate (length (locs rx)) 1))
                 (col_matrix (getCharDecay (waveform src) (fieldType rx) (rx_times rx)))) (rxList src)))
          = nRx src"
      unfolding nRx_def by (rule inner) simp
    with Cons show ?case by simp
  qed
  then have "sum_list (map ncols (getTblocks sv)) = sum_list (map nRx (srcList sv))"
    by (simp add: getTblocks_def)
  moreover have "\<forall>B\<in>set (getTblocks sv). wf_matrix B"
    by (auto simp: getTblocks_def wf)
  ultimately show ?thesis by blast
qed

lemma LinearVRM_built_shapes:
  assumes "\<not> AisSet s" and "\<not> TisSet s"
    and "LinearVRM_A s = (Inr (Some Am), sA)" and "LinearVRM_T s = (Inr (Some Tm), sT)"
  shows "wf_matrix Am \<and> wf_matrix Tm \<and> nrows Am = ncols Tm \<and>
         ncols Am = length (filter id (indActive s))"
proof -
  from assms(1,3) obtain sv As where sv: "survey s = Some sv"
    and As: "getAMatricies (mesh s) (indActive s) sv (refFact s) (refRadius s) = Inr As"
    and Am: "vstack As = Inr Am"
    by (auto simp: LinearVRM_A_def Let_def split: option.splits sum.splits)
  from assms(2,4) sv have Tm: "block_diag (getTblocks sv) = Inr Tm"
    by (auto simp: LinearVRM_T_def Let_def split: sum.splits)
  from As obtain xyzc xyzh where c: "select (indActive s) (gridCC (mesh s)) = Inr xyzc"
    and q: "sequenceE (map (getAblock xyzc xyzh (refFact s) (refRadius s)) (srcList sv)) = Inr As"
    by (auto simp: getAMatricies_def split: sum.splits)
  from sequenceE_map [OF q] have la: "length As = length (srcList sv)"
    and bl: "\<And>i. i < length (srcList sv) \<Longrightarrow>
               getAblock xyzc xyzh (refFact s) (refRadius s) (srcList sv ! i) = Inr (As ! i)"
    by simp_all
  have sh: "wf_matrix (As ! i) \<and> nrows (As ! i) = nRx (srcList sv ! i) \<and> ncols (As ! i) = length xyzc"
    if "i < length As" for i
    using getAblock_shape [OF bl] that la by simp
  then have wfA: "\<forall>B\<in>set As. wf_matrix B" and ncA: "\<forall>B\<in>set As. ncols B = length xyzc"
    by (auto simp: in_set_conv_nth)
  have "map nrows As = map nRx (srcList sv)"
    using sh la by (simp add: list_eq_iff_nth_eq)
  with vstack_shape [OF Am wfA] have A: "wf_matrix Am" "nrows Am = sum_list (map nRx (srcList sv))"
    "\<forall>B\<in>set As. ncols B = ncols Am"
    by simp_all
  from Am have "As \<noteq> []" by (auto simp: vstack_def)
  with A(3) ncA have "ncols Am = length xyzc" by (cases As) auto
  moreover from c have "length xyzc = length (filter id (indActive s))"
  proof -
    have "length (filter fst (zip a b)) = length (filter id a)" if "length a = length b"
      for a :: "bool list" and b :: "vec3 list"
      using that by (induction a b rule: list_induct2) simp_all
    with c show ?thesis by (auto simp: select_def split: if_splits)
  qed
  moreover from block_diag_shape [OF Tm] getTblocks_shape [of sv]
  have "wf_matrix Tm" "ncols Tm = sum_list (map nRx (srcList sv))" by simp_all
  ultimately show ?thesis using A by simp
qed

end
